theory Spec2Isabelle
  imports Complex_Main "HOL-Library.Sublist"
begin

section \<open>JavaScript values\<close>

text \<open>
  The two components of the repository (the one-minute radar view, whose functions keep
  their plain names below, and \<^verbatim>\<open>src/components/Map.vue\<close>, whose functions carry the
  suffix \<open>_Map\<close>) work on the loosely typed result of \<^verbatim>\<open>response.json()\<close>.
  The values are modelled as the language has them.

  A number is a finite value, an infinity (\<open>True\<close> for the positive one) or NaN. Finite
  arithmetic is idealised: it is exact arithmetic on the reals, without rounding, without
  overflow to an infinity and with a single, unsigned zero.
\<close>

datatype jsnum = Finite real | Infinite bool | NaN

datatype jsval =
    Undefined
  | Null
  | Bool bool
  | Num jsnum
  | Str string
  | Arr "jsval list"
  | Obj "(string \<times> jsval) list"

datatype error = NetworkError | HttpError nat | SyntaxError | TypeError

text \<open>Truthiness, as \<^verbatim>\<open>!x\<close>, \<^verbatim>\<open>x && y\<close> and \<^verbatim>\<open>if (x)\<close> use it.\<close>

fun truthy :: "jsval \<Rightarrow> bool" where
  "truthy Undefined = False"
| "truthy Null = False"
| "truthy (Bool b) = b"
| "truthy (Num (Finite x)) = (x \<noteq> 0)"
| "truthy (Num (Infinite s)) = True"
| "truthy (Num NaN) = False"
| "truthy (Str s) = (s \<noteq> [])"
| "truthy (Arr xs) = True"
| "truthy (Obj kvs) = True"

text \<open>
  The conversion to a number that \<^verbatim>\<open>isNaN(x)\<close> and \<^verbatim>\<open>x * y\<close> apply to an operand.
  On a string it is the engine's reading of the text, which never throws. On an array or
  an object it goes through the value's \<^verbatim>\<open>valueOf\<close> and \<^verbatim>\<open>toString\<close> and throws a TypeError
  when neither gives a primitive, as for the parsed \<^verbatim>\<open>{"toString": 0}\<close>. Both belong to
  the language and not to the repository; they are the parameter \<open>eng\<close> of everything
  below (\<open>None\<close> is the throw), and every theorem holds for every such engine.
\<close>

record engine =
  text_number :: "string \<Rightarrow> jsnum"
  object_number :: "jsval \<Rightarrow> jsnum option"

fun to_number :: "engine \<Rightarrow> jsval \<Rightarrow> error + jsnum" where
  "to_number eng Undefined = Inr NaN"
| "to_number eng Null = Inr (Finite 0)"
| "to_number eng (Bool b) = Inr (Finite (if b then 1 else 0))"
| "to_number eng (Num n) = Inr n"
| "to_number eng (Str s) = Inr (text_number eng s)"
| "to_number eng v = (case object_number eng v of None \<Rightarrow> Inl TypeError | Some n \<Rightarrow> Inr n)"

definition isNaN :: "engine \<Rightarrow> jsval \<Rightarrow> error + bool" where
  "isNaN eng v = (case to_number eng v of Inl e \<Rightarrow> Inl e | Inr n \<Rightarrow> Inr (n = NaN))"

text \<open>
  Reading a property \<^verbatim>\<open>v.k\<close>. On \<^verbatim>\<open>undefined\<close> and \<^verbatim>\<open>null\<close> it throws a TypeError.
  On an object, the list of its properties, it is the value listed first under the name,
  or \<^verbatim>\<open>undefined\<close>. The program reads only the names \<^verbatim>\<open>ac\<close>, \<^verbatim>\<open>lat\<close>, \<^verbatim>\<open>lon\<close>,
  \<^verbatim>\<open>track\<close>, \<^verbatim>\<open>gs\<close> and \<^verbatim>\<open>hex\<close> this way, none of which a boolean, a number, a
  string or an array has.
\<close>

fun get_prop :: "jsval \<Rightarrow> string \<Rightarrow> error + jsval" where
  "get_prop Undefined k = Inl TypeError"
| "get_prop Null k = Inl TypeError"
| "get_prop (Obj kvs) k = Inr (case map_of kvs k of None \<Rightarrow> Undefined | Some v \<Rightarrow> v)"
| "get_prop v k = Inr Undefined"

section \<open>Validation of a raw snapshot\<close>

text \<open>
  The callback of the filter, the same text in both components:
  \<^verbatim>\<open>(marker) => marker.lat && marker.lon && !isNaN(marker.lat) && !isNaN(marker.lon)\<close>
  The operands are evaluated from the left up to the first falsy one. Reading a property
  of a \<^verbatim>\<open>null\<close> entry throws, and so does an \<^verbatim>\<open>isNaN\<close> that is reached on a value the
  language cannot convert.
\<close>

definition marker_valid :: "engine \<Rightarrow> jsval \<Rightarrow> error + bool" where
  "marker_valid eng marker =
     (case get_prop marker ''lat'' of
        Inl e \<Rightarrow> Inl e
      | Inr lat \<Rightarrow>
          if \<not> truthy lat then Inr False
          else
            (case get_prop marker ''lon'' of
               Inl e \<Rightarrow> Inl e
             | Inr lon \<Rightarrow>
                 if \<not> truthy lon then Inr False
                 else
                   (case isNaN eng lat of
                      Inl e \<Rightarrow> Inl e
                    | Inr True \<Rightarrow> Inr False
                    | Inr False \<Rightarrow>
                        (case isNaN eng lon of
                           Inl e \<Rightarrow> Inl e
                         | Inr nan \<Rightarrow> Inr (\<not> nan)))))"

text \<open>\<^verbatim>\<open>Array.prototype.filter\<close> with a callback that may throw: the first throw ends it.\<close>

fun filter_markers :: "engine \<Rightarrow> jsval list \<Rightarrow> error + jsval list" where
  "filter_markers eng [] = Inr []"
| "filter_markers eng (m # ms) =
     (case marker_valid eng m of
        Inl e \<Rightarrow> Inl e
      | Inr keep \<Rightarrow>
          (case filter_markers eng ms of
             Inl e \<Rightarrow> Inl e
           | Inr rest \<Rightarrow> Inr (if keep then m # rest else rest)))"

text \<open>
  \<^verbatim>\<open>const validMarkers = data.ac?.filter(...) || [];\<close>
  Reading \<^verbatim>\<open>data.ac\<close> throws on a null payload. The optional chain yields \<^verbatim>\<open>undefined\<close>,
  hence the empty list, when \<^verbatim>\<open>data.ac\<close> is \<^verbatim>\<open>undefined\<close> or \<^verbatim>\<open>null\<close>. Any other value
  that is not an array has no callable \<^verbatim>\<open>filter\<close>, and the call throws a TypeError.
\<close>

definition validMarkers :: "engine \<Rightarrow> jsval \<Rightarrow> error + jsval list" where
  "validMarkers eng data =
     (case get_prop data ''ac'' of
        Inl e \<Rightarrow> Inl e
      | Inr ac \<Rightarrow>
          (case ac of
             Undefined \<Rightarrow> Inr []
           | Null \<Rightarrow> Inr []
           | Arr raw \<Rightarrow> filter_markers eng raw
           | _ \<Rightarrow> Inl TypeError))"

text \<open>The raw shape of a snapshot: an object with the entries under \<^verbatim>\<open>ac\<close>.\<close>

definition raw_snapshot :: "jsval list \<Rightarrow> jsval" where
  "raw_snapshot entries = Obj [(''ac'', Arr entries)]"

section \<open>Number arithmetic\<close>

text \<open>
  The operators and \<^verbatim>\<open>Math\<close> functions the projection uses, on all numbers. NaN
  propagates; the infinities follow IEEE 754, up to the sign of a zero.
\<close>

fun js_neg :: "jsnum \<Rightarrow> jsnum" where
  "js_neg (Finite a) = Finite (- a)"
| "js_neg (Infinite s) = Infinite (\<not> s)"
| "js_neg NaN = NaN"

fun js_add :: "jsnum \<Rightarrow> jsnum \<Rightarrow> jsnum" where
  "js_add (Finite a) (Finite b) = Finite (a + b)"
| "js_add (Finite a) (Infinite t) = Infinite t"
| "js_add (Infinite s) (Finite b) = Infinite s"
| "js_add (Infinite s) (Infinite t) = (if s = t then Infinite s else NaN)"
| "js_add NaN y = NaN"
| "js_add x NaN = NaN"

definition js_sub :: "jsnum \<Rightarrow> jsnum \<Rightarrow> jsnum" where
  "js_sub x y = js_add x (js_neg y)"

fun js_mul :: "jsnum \<Rightarrow> jsnum \<Rightarrow> jsnum" where
  "js_mul (Finite a) (Finite b) = Finite (a * b)"
| "js_mul (Finite a) (Infinite t) = (if a = 0 then NaN else Infinite (t = (0 < a)))"
| "js_mul (Infinite s) (Finite b) = (if b = 0 then NaN else Infinite (s = (0 < b)))"
| "js_mul (Infinite s) (Infinite t) = Infinite (s = t)"
| "js_mul NaN y = NaN"
| "js_mul x NaN = NaN"

fun js_div :: "jsnum \<Rightarrow> jsnum \<Rightarrow> jsnum" where
  "js_div (Finite a) (Finite b) =
     (if b = 0 then (if a = 0 then NaN else Infinite (0 < a)) else Finite (a / b))"
| "js_div (Finite a) (Infinite t) = Finite 0"
| "js_div (Infinite s) (Finite b) = Infinite (s = (0 \<le> b))"
| "js_div (Infinite s) (Infinite t) = NaN"
| "js_div NaN y = NaN"
| "js_div x NaN = NaN"

fun js_sin :: "jsnum \<Rightarrow> jsnum" where
  "js_sin (Finite x) = Finite (sin x)"
| "js_sin x = NaN"

fun js_cos :: "jsnum \<Rightarrow> jsnum" where
  "js_cos (Finite x) = Finite (cos x)"
| "js_cos x = NaN"

fun js_asin :: "jsnum \<Rightarrow> jsnum" where
  "js_asin (Finite x) = (if - 1 \<le> x \<and> x \<le> 1 then Finite (arcsin x) else NaN)"
| "js_asin x = NaN"

text \<open>The angle of the point \<open>(x, y)\<close>, in \<open>(-\<pi>, \<pi>]\<close>.\<close>

definition atan2 :: "real \<Rightarrow> real \<Rightarrow> real" where
  "atan2 y x =
     (if 0 < x then arctan (y / x)
      else if x < 0 then (if 0 \<le> y then arctan (y / x) + pi else arctan (y / x) - pi)
      else if 0 < y then pi / 2
      else if y < 0 then - (pi / 2)
      else 0)"

fun js_atan2 :: "jsnum \<Rightarrow> jsnum \<Rightarrow> jsnum" where
  "js_atan2 (Finite y) (Finite x) = Finite (atan2 y x)"
| "js_atan2 (Finite y) (Infinite t) = Finite (if t then 0 else if 0 \<le> y then pi else - pi)"
| "js_atan2 (Infinite s) (Finite x) = Finite (if s then pi / 2 else - (pi / 2))"
| "js_atan2 (Infinite s) (Infinite t) =
     Finite ((if s then 1 else - 1) * (if t then pi / 4 else 3 * pi / 4))"
| "js_atan2 NaN x = NaN"
| "js_atan2 y NaN = NaN"

section \<open>The component state\<close>

text \<open>
  \<^verbatim>\<open>markers\<close>, \<^verbatim>\<open>directionLines\<close> and \<^verbatim>\<open>mapRef\<close> are the refs of the component.
  \<^verbatim>\<open>mapRef.value\<close> is \<^verbatim>\<open>null\<close> until the map component is mounted; the component's
  \<^verbatim>\<open>leafletObject\<close> is undefined until the widget has created its map. Console output
  is not part of the state.
\<close>

type_synonym point = "jsval \<times> jsval"
type_synonym segment = "point \<times> point"

record direction_line =
  hex :: jsval
  line :: segment

datatype leaflet = LeafletMap

record l_map =
  leafletObject :: "leaflet option"

record tracker =
  markers :: "jsval list"
  directionLines :: "direction_line list"
  mapRef :: "l_map option"

definition initial :: tracker where
  "initial = \<lparr>markers = [], directionLines = [], mapRef = None\<rparr>"

section \<open>The projection of the one-minute view\<close>

text \<open>
  \<^verbatim>\<open>const speedInDegreesPerMinute = speed * 0.0003;\<close>
  \<^verbatim>\<open>const distanceIn1Minute = speedInDegreesPerMinute / 90;\<close>
  The value is used as the angular distance of the end point, in radians.
\<close>

definition distanceIn1Minute :: "engine \<Rightarrow> jsval \<Rightarrow> error + jsnum" where
  "distanceIn1Minute eng speed =
     (case to_number eng speed of
        Inl e \<Rightarrow> Inl e
      | Inr s \<Rightarrow>
          (let speedInDegreesPerMinute = js_mul s (Finite 0.0003)
           in Inr (js_div speedInDegreesPerMinute (Finite 90))))"

text \<open>\<^verbatim>\<open>(x * Math.PI) / 180\<close> and \<^verbatim>\<open>(x * 180) / Math.PI\<close>.\<close>

definition to_radians :: "jsnum \<Rightarrow> jsnum" where
  "to_radians x = js_div (js_mul x (Finite pi)) (Finite 180)"

definition to_degrees :: "jsnum \<Rightarrow> jsnum" where
  "to_degrees x = js_div (js_mul x (Finite 180)) (Finite pi)"

text \<open>
  The great-circle step, whose text both components repeat for every point they compute:
  from the point \<open>(latRad, lonRad)\<close> along \<open>trackRad\<close> by the angular distance \<open>d\<close>;
  the new longitude reads the new latitude.
  \<^verbatim>\<open>Math.asin(Math.sin(latRad) * Math.cos(d) + Math.cos(latRad) * Math.sin(d) * Math.cos(trackRad))\<close>
  \<^verbatim>\<open>lonRad + Math.atan2(Math.sin(trackRad) * Math.sin(d) * Math.cos(latRad),\<close>
  \<^verbatim>\<open>                    Math.cos(d) - Math.sin(latRad) * Math.sin(newLatRad))\<close>
\<close>

definition step_lat :: "jsnum \<Rightarrow> jsnum \<Rightarrow> jsnum \<Rightarrow> jsnum" where
  "step_lat latRad trackRad d =
     js_asin (js_add (js_mul (js_sin latRad) (js_cos d))
                     (js_mul (js_mul (js_cos latRad) (js_sin d)) (js_cos trackRad)))"

definition step_lon :: "jsnum \<Rightarrow> jsnum \<Rightarrow> jsnum \<Rightarrow> jsnum \<Rightarrow> jsnum \<Rightarrow> jsnum" where
  "step_lon latRad lonRad trackRad d newLatRad =
     js_add lonRad
       (js_atan2 (js_mul (js_mul (js_sin trackRad) (js_sin d)) (js_cos latRad))
                 (js_sub (js_cos d) (js_mul (js_sin latRad) (js_sin newLatRad))))"

text \<open>
  \<^verbatim>\<open>function calculateDirectionLine(lat, lon, track, speed, distance = 0.001)\<close>; the last
  parameter is never read. The function reads \<^verbatim>\<open>mapRef\<close> from the component state. The
  guard \<^verbatim>\<open>!track || isNaN(track) || !speed || isNaN(speed)\<close> is evaluated from the left and
  stops at the first operand that holds; an \<^verbatim>\<open>isNaN\<close> it reaches may throw. The widget is
  read after the guard, and \<^verbatim>\<open>lat\<close> and \<^verbatim>\<open>lon\<close> are converted after that.
\<close>

definition calculateDirectionLine ::
  "engine \<Rightarrow> tracker \<Rightarrow> jsval \<Rightarrow> jsval \<Rightarrow> jsval \<Rightarrow> jsval \<Rightarrow> error + segment option" where
  "calculateDirectionLine eng st lat lon track speed =
     (if \<not> truthy track then Inr None
      else
        (case isNaN eng track of
           Inl e \<Rightarrow> Inl e
         | Inr True \<Rightarrow> Inr None
         | Inr False \<Rightarrow>
             if \<not> truthy speed then Inr None
             else
               (case isNaN eng speed of
                  Inl e \<Rightarrow> Inl e
                | Inr True \<Rightarrow> Inr None
                | Inr False \<Rightarrow>
                    (case (case mapRef st of
                             None \<Rightarrow> None
                           | Some component \<Rightarrow> leafletObject component) of
                       None \<Rightarrow> Inr None
                     | Some the_map \<Rightarrow>
                         (case (distanceIn1Minute eng speed, to_number eng track,
                                to_number eng lat, to_number eng lon) of
                            (Inr d, Inr t, Inr la, Inr lo) \<Rightarrow>
                              (let trackRad = to_radians t;
                                   latRad = to_radians la;
                                   lonRad = to_radians lo;
                                   startLatRad = latRad;
                                   startLonRad = lonRad;
                                   endLatRad = step_lat startLatRad trackRad d;
                                   endLonRad =
                                     step_lon startLatRad startLonRad trackRad d endLatRad
                               in Inr (Some ((lat, lon),
                                             (Num (to_degrees endLatRad),
                                              Num (to_degrees endLonRad)))))
                          | _ \<Rightarrow> Inl TypeError)))))"

section \<open>One refresh of the one-minute view\<close>

text \<open>
  What \<^verbatim>\<open>await fetch(...)\<close> and \<^verbatim>\<open>await response.json()\<close> deliver: the fetch rejects, or
  resolves to a response with a status and a body that parses as JSON or does not.
  \<^verbatim>\<open>response.ok\<close> holds for the statuses 200 to 299.
\<close>

record response =
  status :: nat
  body :: "jsval option"

datatype fetch_result = Rejected | Resolved response

definition ok :: "response \<Rightarrow> bool" where
  "ok r = (200 \<le> status r \<and> status r \<le> 299)"

text \<open>
  The callback of \<^verbatim>\<open>validMarkers.map\<close>: an entry \<^verbatim>\<open>{hex, line}\<close>, or \<^verbatim>\<open>null\<close> when the
  marker's track is falsy or the projection returns \<^verbatim>\<open>null\<close>. What the projection throws,
  the callback throws.
\<close>

definition direction_entry ::
  "engine \<Rightarrow> tracker \<Rightarrow> jsval \<Rightarrow> error + direction_line option" where
  "direction_entry eng st marker =
     (case get_prop marker ''track'' of
        Inl e \<Rightarrow> Inl e
      | Inr track \<Rightarrow>
          if truthy track then
            (case (get_prop marker ''lat'', get_prop marker ''lon'',
                   get_prop marker ''gs'', get_prop marker ''hex'') of
               (Inr lat, Inr lon, Inr gs, Inr h) \<Rightarrow>
                 (case calculateDirectionLine eng st lat lon track gs of
                    Inl e \<Rightarrow> Inl e
                  | Inr None \<Rightarrow> Inr None
                  | Inr (Some linePoints) \<Rightarrow> Inr (Some \<lparr>hex = h, line = linePoints\<rparr>))
             | _ \<Rightarrow> Inl TypeError)
          else Inr None)"

fun map_entries ::
  "(jsval \<Rightarrow> error + direction_line option) \<Rightarrow> jsval list \<Rightarrow>
   error + direction_line option list" where
  "map_entries f [] = Inr []"
| "map_entries f (m # ms) =
     (case f m of
        Inl e \<Rightarrow> Inl e
      | Inr l \<Rightarrow>
          (case map_entries f ms of
             Inl e \<Rightarrow> Inl e
           | Inr ls \<Rightarrow> Inr (l # ls)))"

text \<open>\<^verbatim>\<open>.filter((line) => line !== null)\<close>\<close>

definition non_null :: "direction_line option list \<Rightarrow> direction_line list" where
  "non_null ls = [l. Some l \<leftarrow> ls]"

text \<open>
  The body of the \<^verbatim>\<open>try\<close> block: the state it leaves and the exception it throws, if
  any. \<^verbatim>\<open>markers.value\<close> is assigned before the direction lines are computed, so a
  throw of the \<^verbatim>\<open>map\<close> callback leaves the new markers beside the old direction lines.
\<close>

definition getFlights_try ::
  "engine \<Rightarrow> fetch_result \<Rightarrow> tracker \<Rightarrow> tracker \<times> error option" where
  "getFlights_try eng fr st =
     (case fr of
        Rejected \<Rightarrow> (st, Some NetworkError)
      | Resolved r \<Rightarrow>
          if \<not> ok r then (st, Some (HttpError (status r)))
          else
            (case body r of
               None \<Rightarrow> (st, Some SyntaxError)
             | Some data \<Rightarrow>
                 (case validMarkers eng data of
                    Inl e \<Rightarrow> (st, Some e)
                  | Inr vm \<Rightarrow>
                      (let st1 = st\<lparr>markers := vm\<rparr> in
                       case map_entries (direction_entry eng st1) vm of
                         Inl e \<Rightarrow> (st1, Some e)
                       | Inr ls \<Rightarrow> (st1\<lparr>directionLines := non_null ls\<rparr>, None)))))"

text \<open>
  \<^verbatim>\<open>catch (err) { console.error(...) }\<close>: whatever the block throws is logged and not
  thrown again. The second component is the exception that reaches the caller.
\<close>

definition getFlights ::
  "engine \<Rightarrow> fetch_result \<Rightarrow> tracker \<Rightarrow> tracker \<times> error option" where
  "getFlights eng fr st =
     (case getFlights_try eng fr st of
        (st', None) \<Rightarrow> (st', None)
      | (st', Some err) \<Rightarrow> (st', None))"

section \<open>The component \<^verbatim>\<open>Map.vue\<close>\<close>

text \<open>\<^verbatim>\<open>let size = -0.0002;\<close>, never assigned again.\<close>

definition size_Map :: jsnum where
  "size_Map = Finite (- 0.0002)"

text \<open>
  \<^verbatim>\<open>function calculateDirectionLine(lat, lon, track, distance = 0.001)\<close>: the start point
  is moved \<^verbatim>\<open>startDistance = 0.00001\<close> along the track, the end point a further
  \<^verbatim>\<open>distance - size\<close>.
\<close>

definition calculateDirectionLine_Map ::
  "engine \<Rightarrow> jsval \<Rightarrow> jsval \<Rightarrow> jsval \<Rightarrow> jsnum \<Rightarrow> error + segment option" where
  "calculateDirectionLine_Map eng lat lon track distance =
     (if \<not> truthy track then Inr None
      else
        (case isNaN eng track of
           Inl e \<Rightarrow> Inl e
         | Inr True \<Rightarrow> Inr None
         | Inr False \<Rightarrow>
             (case (to_number eng track, to_number eng lat, to_number eng lon) of
                (Inr t, Inr la, Inr lo) \<Rightarrow>
                  (let trackRad = to_radians t;
                       latRad = to_radians la;
                       lonRad = to_radians lo;
                       startDistance = Finite 0.00001;
                       startLatRad = step_lat latRad trackRad startDistance;
                       startLonRad = step_lon latRad lonRad trackRad startDistance startLatRad;
                       endLatRad = step_lat startLatRad trackRad (js_sub distance size_Map);
                       endLonRad =
                         step_lon startLatRad startLonRad trackRad (js_sub distance size_Map)
                           endLatRad
                   in Inr (Some ((Num (to_degrees startLatRad), Num (to_degrees startLonRad)),
                                 (Num (to_degrees endLatRad), Num (to_degrees endLonRad)))))
              | _ \<Rightarrow> Inl TypeError)))"

definition direction_entry_Map ::
  "engine \<Rightarrow> jsval \<Rightarrow> error + direction_line option" where
  "direction_entry_Map eng marker =
     (case get_prop marker ''track'' of
        Inl e \<Rightarrow> Inl e
      | Inr track \<Rightarrow>
          if truthy track then
            (case (get_prop marker ''lat'', get_prop marker ''lon'', get_prop marker ''hex'') of
               (Inr lat, Inr lon, Inr h) \<Rightarrow>
                 (case calculateDirectionLine_Map eng lat lon track (Finite 0.001) of
                    Inl e \<Rightarrow> Inl e
                  | Inr None \<Rightarrow> Inr None
                  | Inr (Some linePoints) \<Rightarrow> Inr (Some \<lparr>hex = h, line = linePoints\<rparr>))
             | _ \<Rightarrow> Inl TypeError)
          else Inr None)"

definition getFlights_try_Map ::
  "engine \<Rightarrow> fetch_result \<Rightarrow> tracker \<Rightarrow> tracker \<times> error option" where
  "getFlights_try_Map eng fr st =
     (case fr of
        Rejected \<Rightarrow> (st, Some NetworkError)
      | Resolved r \<Rightarrow>
          if \<not> ok r then (st, Some (HttpError (status r)))
          else
            (case body r of
               None \<Rightarrow> (st, Some SyntaxError)
             | Some data \<Rightarrow>
                 (case validMarkers eng data of
                    Inl e \<Rightarrow> (st, Some e)
                  | Inr vm \<Rightarrow>
                      (let st1 = st\<lparr>markers := vm\<rparr> in
                       case map_entries (direction_entry_Map eng) vm of
                         Inl e \<Rightarrow> (st1, Some e)
                       | Inr ls \<Rightarrow> (st1\<lparr>directionLines := non_null ls\<rparr>, None)))))"

definition getFlights_Map ::
  "engine \<Rightarrow> fetch_result \<Rightarrow> tracker \<Rightarrow> tracker \<times> error option" where
  "getFlights_Map eng fr st =
     (case getFlights_try_Map eng fr st of
        (st', None) \<Rightarrow> (st', None)
      | (st', Some err) \<Rightarrow> (st', None))"

section \<open>Notions the properties are stated with\<close>

text \<open>The value of a field of a raw entry; \<^verbatim>\<open>undefined\<close> when the entry has none.\<close>

definition field :: "jsval \<Rightarrow> string \<Rightarrow> jsval" where
  "field m k = (case get_prop m k of Inl e \<Rightarrow> Undefined | Inr v \<Rightarrow> v)"

text \<open>
  A value that the language converts to a number without throwing, and a value that the
  guards of the form \<^verbatim>\<open>!x || isNaN(x)\<close> let through: truthy, and converted to a number
  other than NaN. A primitive value is always converted.
\<close>

definition convertible :: "engine \<Rightarrow> jsval \<Rightarrow> bool" where
  "convertible eng v = (case to_number eng v of Inl e \<Rightarrow> False | Inr n \<Rightarrow> True)"

definition present :: "engine \<Rightarrow> jsval \<Rightarrow> bool" where
  "present eng v = (truthy v \<and> isNaN eng v = Inr False)"

definition primitive :: "jsval \<Rightarrow> bool" where
  "primitive v = (case v of Arr xs \<Rightarrow> False | Obj kvs \<Rightarrow> False | _ \<Rightarrow> True)"

text \<open>The map widget has created its map: \<^verbatim>\<open>mapRef.value?.leafletObject\<close> is set.\<close>

definition leaflet_ready :: "tracker \<Rightarrow> bool" where
  "leaflet_ready st =
     (case mapRef st of None \<Rightarrow> False | Some component \<Rightarrow> leafletObject component \<noteq> None)"

text \<open>
  The entries on which the callback of the filter throws: \<^verbatim>\<open>null\<close>, and an entry with a
  truthy latitude and longitude where the conversion of the latitude throws, or gives a
  number other than NaN and the conversion of the longitude throws.
\<close>

definition entry_throws :: "engine \<Rightarrow> jsval \<Rightarrow> bool" where
  "entry_throws eng m =
     (m = Undefined \<or> m = Null \<or>
      (truthy (field m ''lat'') \<and> truthy (field m ''lon'') \<and>
       (if convertible eng (field m ''lat'')
        then isNaN eng (field m ''lat'') = Inr False \<and> \<not> convertible eng (field m ''lon'')
        else True)))"

text \<open>
  The payloads on which the validation throws: \<^verbatim>\<open>null\<close> itself, a value under \<^verbatim>\<open>ac\<close>
  that is neither missing nor \<^verbatim>\<open>null\<close> nor an array, and an array with such an entry.
\<close>

definition payload_throws :: "engine \<Rightarrow> jsval \<Rightarrow> bool" where
  "payload_throws eng data =
     (case data of
        Undefined \<Rightarrow> True
      | Null \<Rightarrow> True
      | _ \<Rightarrow>
          (case field data ''ac'' of
             Undefined \<Rightarrow> False
           | Null \<Rightarrow> False
           | Arr raw \<Rightarrow> list_ex (entry_throws eng) raw
           | _ \<Rightarrow> True))"

text \<open>
  The refreshes that fail before anything is stored: the fetch rejects, the status is not
  a success, the body does not parse, or the payload is one of those above.
\<close>

definition refresh_fails :: "engine \<Rightarrow> fetch_result \<Rightarrow> bool" where
  "refresh_fails eng fr =
     (case fr of
        Rejected \<Rightarrow> True
      | Resolved r \<Rightarrow>
          \<not> ok r \<or> (case body r of None \<Rightarrow> True | Some data \<Rightarrow> payload_throws eng data))"

text \<open>The entries of a payload: its \<^verbatim>\<open>ac\<close> array, or none.\<close>

definition raw_entries :: "jsval \<Rightarrow> jsval list" where
  "raw_entries data = (case get_prop data ''ac'' of Inr (Arr raw) \<Rightarrow> raw | _ \<Rightarrow> [])"

text \<open>
  The direct-position formula of the specification, on the reals: from latitude \<open>p\<close> and
  longitude \<open>l\<close> along the bearing \<open>t\<close> by the angular distance \<open>d\<close>, all in radians.
\<close>

definition direct_lat :: "real \<Rightarrow> real \<Rightarrow> real \<Rightarrow> real" where
  "direct_lat p t d = arcsin (sin p * cos d + cos p * sin d * cos t)"

definition direct_lon :: "real \<Rightarrow> real \<Rightarrow> real \<Rightarrow> real \<Rightarrow> real" where
  "direct_lon p l t d =
     l + atan2 (sin t * sin d * cos p) (cos d - sin p * sin (direct_lat p t d))"

text \<open>
  The states a component passes through: it starts empty, the map widget comes and goes,
  and each refresh runs to its end. (A refresh changes the state only after its last
  \<^verbatim>\<open>await\<close>, so refreshes in flight at the same time still apply one after the other.)
\<close>

inductive reachable ::
  "(fetch_result \<Rightarrow> tracker \<Rightarrow> tracker \<times> error option) \<Rightarrow> tracker \<Rightarrow> bool"
  for refresh :: "fetch_result \<Rightarrow> tracker \<Rightarrow> tracker \<times> error option" where
  start: "reachable refresh initial"
| widget: "reachable refresh st \<Longrightarrow> reachable refresh (st\<lparr>mapRef := r\<rparr>)"
| refreshed: "reachable refresh st \<Longrightarrow> reachable refresh (fst (refresh fr st))"

section \<open>Sample data\<close>

text \<open>
  The entries of the specification's scenarios, with the field names of the upstream
  service (\<^verbatim>\<open>hex\<close> is the identifier, \<^verbatim>\<open>gs\<close> the ground speed), and some more: an
  aircraft standing still, one heading due north, one without identifier, one with an
  infinite latitude, one on the equator, and one whose track is the object
  \<^verbatim>\<open>{"toString": 0}\<close>, which the language cannot convert to a number.
\<close>

definition entry_A1 :: jsval where
  "entry_A1 = Obj [(''hex'', Str ''A1''), (''lat'', Num (Finite 41)), (''lon'', Num (Finite (- 8))),
                   (''track'', Num (Finite 90)), (''gs'', Num (Finite 120))]"

definition entry_B2 :: jsval where
  "entry_B2 = Obj [(''hex'', Str ''B2''), (''lat'', Num NaN), (''lon'', Num (Finite (- 8)))]"

definition entry_still :: jsval where
  "entry_still = Obj [(''hex'', Str ''S0''), (''lat'', Num (Finite 41)), (''lon'', Num (Finite (- 8))),
                      (''track'', Num (Finite 90)), (''gs'', Num (Finite 0))]"

definition entry_north :: jsval where
  "entry_north = Obj [(''hex'', Str ''N0''), (''lat'', Num (Finite 41)), (''lon'', Num (Finite (- 8))),
                      (''track'', Num (Finite 0)), (''gs'', Num (Finite 120))]"

definition entry_anon :: jsval where
  "entry_anon = Obj [(''lat'', Num (Finite 41)), (''lon'', Num (Finite (- 8)))]"

definition entry_far :: jsval where
  "entry_far = Obj [(''hex'', Str ''C3''), (''lat'', Num (Infinite True)), (''lon'', Num (Finite (- 8)))]"

definition entry_equator :: jsval where
  "entry_equator = Obj [(''hex'', Str ''E0''), (''lat'', Num (Finite 0)), (''lon'', Num (Finite (- 8))),
                        (''track'', Num (Finite 90)), (''gs'', Num (Finite 120))]"

definition entry_P :: jsval where
  "entry_P = Obj [(''hex'', Str ''P0''), (''lat'', Num (Finite 41)), (''lon'', Num (Finite (- 8))),
                  (''track'', Obj [(''toString'', Num (Finite 0))]), (''gs'', Num (Finite 120))]"

text \<open>
  The closed examples need one engine. The only values they convert that are not numbers
  are objects like the track of the last entry, on which the language throws; no example
  converts a string. This engine throws on every object and reads no text as a number.
\<close>

definition sample_engine :: engine where
  "sample_engine = \<lparr>text_number = (\<lambda>s. NaN), object_number = (\<lambda>v. None)\<rparr>"

text \<open>
  A successful response with the given entries, one whose payload is an object without
  \<^verbatim>\<open>ac\<close>, one whose payload is not an object at all, and one with the entry whose track
  cannot be converted.
\<close>

definition success :: "jsval list \<Rightarrow> fetch_result" where
  "success entries = Resolved \<lparr>status = 200, body = Some (raw_snapshot entries)\<rparr>"

definition no_list :: fetch_result where
  "no_list = Resolved \<lparr>status = 200, body = Some (Obj [])\<rparr>"

definition not_object :: fetch_result where
  "not_object = Resolved \<lparr>status = 200, body = Some (Str ''unavailable'')\<rparr>"

definition with_P :: fetch_result where
  "with_P = Resolved \<lparr>status = 200, body = Some (raw_snapshot [entry_P])\<rparr>"

text \<open>The end point the one-minute view computes for the entry A1, in degrees.\<close>

definition endLat_A1 :: real where
  "endLat_A1 = direct_lat (41 * pi / 180) (90 * pi / 180) (120 * 0.0003 / 90) * 180 / pi"

definition endLon_A1 :: real where
  "endLon_A1 =
     direct_lon (41 * pi / 180) (- 8 * pi / 180) (90 * pi / 180) (120 * 0.0003 / 90) * 180 / pi"

definition line_A1 :: direction_line where
  "line_A1 = \<lparr>hex = Str ''A1'',
               line = ((Num (Finite 41), Num (Finite (- 8))),
                       (Num (Finite endLat_A1), Num (Finite endLon_A1)))\<rparr>"

text \<open>
  States: the map component mounted but its map not created yet, the widget ready and
  nothing fetched yet, and the snapshot that a refresh with the entry A1 leaves there.
\<close>

definition mounting :: tracker where
  "mounting = initial\<lparr>mapRef := Some \<lparr>leafletObject = None\<rparr>\<rparr>"

definition ready :: tracker where
  "ready = initial\<lparr>mapRef := Some \<lparr>leafletObject = Some LeafletMap\<rparr>\<rparr>"

definition previous :: tracker where
  "previous = ready\<lparr>markers := [entry_A1], directionLines := [line_A1]\<rparr>"

section \<open>Properties of the conversion\<close>

lemma to_number_TypeError: "to_number eng v = Inl e \<Longrightarrow> e = TypeError"
  by (cases v) (auto split: option.splits)

lemma isNaN_TypeError: "isNaN eng v = Inl e \<Longrightarrow> e = TypeError"
  using to_number_TypeError by (auto simp: isNaN_def split: sum.splits)

lemma primitive_convertible: "primitive v \<Longrightarrow> convertible eng v"
  by (cases v) (simp_all add: primitive_def convertible_def)

lemma convertible_isNaN: "convertible eng v \<longleftrightarrow> (\<exists>b. isNaN eng v = Inr b)"
  by (auto simp: convertible_def isNaN_def split: sum.splits)

lemma present_convertible: "present eng v \<Longrightarrow> convertible eng v"
  by (auto simp: present_def convertible_isNaN)

lemma present_Num: "present eng (Num n) \<longleftrightarrow> n \<noteq> NaN \<and> n \<noteq> Finite 0"
  by (cases n) (auto simp: present_def isNaN_def)

lemma present_not_missing:
  "present eng v \<Longrightarrow> v \<noteq> Undefined \<and> v \<noteq> Null \<and> isNaN eng v = Inr False"
  by (auto simp: present_def)

section \<open>Properties of the validation\<close>

lemma get_prop_field: "m \<noteq> Undefined \<Longrightarrow> m \<noteq> Null \<Longrightarrow> get_prop m k = Inr (field m k)"
  by (cases m) (simp_all add: field_def)

lemma validMarkers_raw_snapshot:
  "validMarkers eng (raw_snapshot raw) = filter_markers eng raw"
  by (simp add: validMarkers_def raw_snapshot_def)

lemma marker_valid_null: "m = Undefined \<or> m = Null \<Longrightarrow> marker_valid eng m = Inl TypeError"
  by (auto simp: marker_valid_def)

lemma marker_valid_unfold:
  assumes "m \<noteq> Undefined" and "m \<noteq> Null"
  shows "marker_valid eng m =
     (if \<not> truthy (field m ''lat'') then Inr False
      else if \<not> truthy (field m ''lon'') then Inr False
      else (case isNaN eng (field m ''lat'') of
              Inl e \<Rightarrow> Inl e
            | Inr True \<Rightarrow> Inr False
            | Inr False \<Rightarrow>
                (case isNaN eng (field m ''lon'') of
                   Inl e \<Rightarrow> Inl e
                 | Inr nan \<Rightarrow> Inr (\<not> nan))))"
  using assms by (simp add: marker_valid_def get_prop_field)

lemma marker_valid_TypeError: "marker_valid eng m = Inl e \<Longrightarrow> e = TypeError"
proof (cases "m = Undefined \<or> m = Null")
  case True
  then show "marker_valid eng m = Inl e \<Longrightarrow> e = TypeError"
    using marker_valid_null [of m eng] by simp
next
  case False
  then show "marker_valid eng m = Inl e \<Longrightarrow> e = TypeError"
    using isNaN_TypeError
    by (auto simp: marker_valid_unfold split: if_splits sum.splits bool.splits)
qed

lemma marker_valid_throws_iff:
  "(\<exists>e. marker_valid eng m = Inl e) \<longleftrightarrow> entry_throws eng m"
proof (cases "m = Undefined \<or> m = Null")
  case True
  then show ?thesis
    using marker_valid_null [of m eng] by (auto simp: entry_throws_def)
next
  case False
  then show ?thesis
    by (auto simp: marker_valid_unfold entry_throws_def convertible_isNaN
        split: sum.splits bool.splits)
qed

lemma marker_valid_True:
  "marker_valid eng m = Inr True \<longleftrightarrow>
     m \<noteq> Undefined \<and> m \<noteq> Null \<and>
     present eng (field m ''lat'') \<and> present eng (field m ''lon'')"
proof (cases "m = Undefined \<or> m = Null")
  case True
  then show ?thesis
    using marker_valid_null [of m eng] by auto
next
  case False
  then show ?thesis
    by (auto simp: marker_valid_unfold present_def split: sum.splits bool.splits)
qed

lemma filter_markers_total:
  "\<forall>m \<in> set raw. \<not> entry_throws eng m \<Longrightarrow> \<exists>out. filter_markers eng raw = Inr out"
proof (induction raw)
  case Nil
  show ?case by simp
next
  case (Cons m ms)
  from Cons.prems have "\<not> entry_throws eng m" by simp
  then obtain b where b: "marker_valid eng m = Inr b"
    using marker_valid_throws_iff [of eng m] by (cases "marker_valid eng m") auto
  from Cons obtain rest where "filter_markers eng ms = Inr rest" by auto
  with b show ?case by simp
qed

lemma filter_markers_throws:
  "\<exists>m \<in> set raw. entry_throws eng m \<Longrightarrow> filter_markers eng raw = Inl TypeError"
proof (induction raw)
  case Nil
  then show ?case by simp
next
  case (Cons m ms)
  show ?case
  proof (cases "marker_valid eng m")
    case (Inl e)
    with marker_valid_TypeError [OF Inl] show ?thesis by simp
  next
    case (Inr b)
    then have "\<not> entry_throws eng m"
      using marker_valid_throws_iff [of eng m] by auto
    with Cons have "filter_markers eng ms = Inl TypeError" by auto
    with Inr show ?thesis by simp
  qed
qed

lemma filter_markers_member:
  "filter_markers eng raw = Inr out \<Longrightarrow>
   m \<in> set out \<longleftrightarrow> m \<in> set raw \<and> marker_valid eng m = Inr True"
proof (induction raw arbitrary: out)
  case Nil
  then show ?case by auto
next
  case (Cons a as)
  then show ?case
    by (auto split: sum.splits if_splits)
qed

lemma filter_markers_subseq:
  "filter_markers eng raw = Inr out \<Longrightarrow> subseq out raw"
proof (induction raw arbitrary: out)
  case Nil
  then show ?case by simp
next
  case (Cons a as)
  then show ?case
    by (auto split: sum.splits if_splits)
qed

lemma filter_markers_all_valid:
  "\<forall>m \<in> set xs. marker_valid eng m = Inr True \<Longrightarrow> filter_markers eng xs = Inr xs"
  by (induction xs) simp_all

lemma filter_markers_idem:
  assumes "filter_markers eng raw = Inr out"
  shows "filter_markers eng out = Inr out"
  using filter_markers_member [OF assms] by (intro filter_markers_all_valid) blast

lemma filter_markers_eq_filter:
  "filter_markers eng raw = Inr out \<Longrightarrow>
   out = filter (\<lambda>m. marker_valid eng m = Inr True) raw"
proof (induction raw arbitrary: out)
  case Nil
  then show ?case by simp
next
  case (Cons m ms)
  then show ?case
    by (auto split: sum.splits if_splits)
qed

lemma validMarkers_cases:
  assumes "validMarkers eng data = Inr vm"
  shows "vm = [] \<or> (\<exists>raw. get_prop data ''ac'' = Inr (Arr raw) \<and> filter_markers eng raw = Inr vm)"
  using assms by (auto simp: validMarkers_def split: sum.splits jsval.splits)

lemma validMarkers_eq_filter:
  assumes "validMarkers eng data = Inr vm"
  shows "vm = filter (\<lambda>m. marker_valid eng m = Inr True) (raw_entries data)"
  using assms filter_markers_eq_filter [of eng _ vm]
  by (auto simp: validMarkers_def raw_entries_def split: sum.splits jsval.splits)

lemma validMarkers_member_valid:
  assumes "validMarkers eng data = Inr vm" and "m \<in> set vm"
  shows "marker_valid eng m = Inr True"
  using assms validMarkers_eq_filter [OF assms(1)] by simp

lemma validMarkers_not_null:
  assumes "validMarkers eng data = Inr vm" and "m \<in> set vm"
  shows "m \<noteq> Undefined \<and> m \<noteq> Null"
  using validMarkers_member_valid [OF assms] by (simp add: marker_valid_True)

lemma validMarkers_throws_iff:
  "(\<exists>e. validMarkers eng data = Inl e) \<longleftrightarrow> payload_throws eng data"
proof (cases "data = Undefined \<or> data = Null")
  case True
  then show ?thesis by (auto simp: validMarkers_def payload_throws_def)
next
  case False
  then have ac: "get_prop data ''ac'' = Inr (field data ''ac'')"
    by (simp add: get_prop_field)
  show ?thesis
  proof (cases "field data ''ac''")
    case (Arr raw)
    have "(\<exists>e. filter_markers eng raw = Inl e) \<longleftrightarrow> (\<exists>m \<in> set raw. entry_throws eng m)"
    proof
      assume "\<exists>e. filter_markers eng raw = Inl e"
      then show "\<exists>m \<in> set raw. entry_throws eng m"
        using filter_markers_total [of raw eng] by force
    next
      assume "\<exists>m \<in> set raw. entry_throws eng m"
      then show "\<exists>e. filter_markers eng raw = Inl e"
        using filter_markers_throws [of raw eng] by blast
    qed
    with False ac Arr show ?thesis
      by (cases data) (simp_all add: validMarkers_def payload_throws_def list_ex_iff)
  qed (use False ac in \<open>cases data; simp add: validMarkers_def payload_throws_def\<close>)+
qed

section \<open>Facts about the reals\<close>

lemma pi_ge_three: "3 \<le> pi"
proof -
  have "sin (pi / 6) \<le> pi / 6"
    by (rule sin_x_le_x) simp
  then show ?thesis
    by (simp add: sin_30)
qed

lemma sin_ge_half: 
  fixes x :: real
  assumes "0 \<le> x" and "x \<le> 1"
  shows "x / 2 \<le> sin x"
proof -
  let ?f = "\<lambda>u. sin u - u / 2"
  have deriv: "\<exists>y. (?f has_real_derivative y) (at u) \<and> 0 \<le> y" if "0 \<le> u" "u \<le> x" for u
  proof -
    have "(?f has_real_derivative cos u - 1 / 2) (at u)"
      by (auto intro!: derivative_eq_intros)
    moreover have "cos (pi / 3) \<le> cos u"
      using that assms pi_ge_three by (intro cos_monotone_0_pi_le) auto
    ultimately show ?thesis
      by (auto simp: cos_60)
  qed
  have "?f 0 \<le> ?f x"
    by (rule DERIV_nonneg_imp_nondecreasing [OF assms(1)]) (use deriv in blast)
  then show ?thesis by simp
qed

lemma one_minus_cos_le:
  fixes x :: real
  shows "1 - cos x \<le> x\<^sup>2 / 2"
proof -
  have "cos x = 1 - 2 * (sin (x / 2))\<^sup>2"
    using cos_double_sin [of "x / 2"] by simp
  moreover have "(sin (x / 2))\<^sup>2 \<le> (x / 2)\<^sup>2"
    using abs_sin_x_le_abs_x [of "x / 2"] by (metis abs_le_square_iff)
  ultimately show ?thesis
    by (simp add: power_divide)
qed

lemma sphere_arg_bounded:
  fixes p d t :: real
  shows "- 1 \<le> sin p * cos d + cos p * sin d * cos t \<and>
         sin p * cos d + cos p * sin d * cos t \<le> 1"
proof -
  let ?c = "cos t"
  have eq: "sin p * cos d + cos p * sin d * ?c =
            (1 + ?c) / 2 * sin (p + d) + (1 - ?c) / 2 * sin (p - d)"
    by (simp add: sin_add sin_diff field_simps)
  have "- 1 \<le> ?c" by simp
  then have "0 \<le> 1 + ?c" by linarith
  then have w1: "0 \<le> (1 + ?c) / 2" by simp
  have w2: "0 \<le> (1 - ?c) / 2" by simp
  have "(1 + ?c) / 2 * sin (p + d) \<le> (1 + ?c) / 2 * 1"
    by (rule mult_left_mono [OF _ w1]) simp
  moreover have "(1 - ?c) / 2 * sin (p - d) \<le> (1 - ?c) / 2 * 1"
    by (rule mult_left_mono [OF _ w2]) simp
  moreover have "(1 + ?c) / 2 * (- 1) \<le> (1 + ?c) / 2 * sin (p + d)"
    by (rule mult_left_mono [OF _ w1]) simp
  moreover have "(1 - ?c) / 2 * (- 1) \<le> (1 - ?c) / 2 * sin (p - d)"
    by (rule mult_left_mono [OF _ w2]) simp
  ultimately show ?thesis
    unfolding eq by (simp add: field_simps)
qed

lemma atan2_pos:
  assumes "0 < y"
  shows "0 < atan2 y x"
proof -
  consider "0 < x" | "x < 0" | "x = 0" by linarith
  then show ?thesis
  proof cases
    case 1
    with assms show ?thesis by (simp add: atan2_def)
  next
    case 2
    have "- (pi / 2) < arctan (y / x)" by (rule arctan_lbound)
    moreover have "0 < pi / 2" by simp
    ultimately have "0 < arctan (y / x) + pi" by linarith
    with 2 assms show ?thesis by (simp add: atan2_def)
  next
    case 3
    with assms show ?thesis by (simp add: atan2_def)
  qed
qed

lemma sin_le_cos:
  fixes p :: real
  assumes "0 \<le> p" and "p \<le> pi / 4"
  shows "sin p \<le> cos p"
proof -
  have "sin p \<le> sin (pi / 4)"
    using assms by (intro sin_monotone_2pi_le) auto
  moreover have "cos (pi / 4) \<le> cos p"
    using assms by (intro cos_monotone_0_pi_le) auto
  ultimately show ?thesis
    by (simp add: sin_45 cos_45)
qed

section \<open>The projection on finite numbers\<close>

lemma to_radians_Finite: "to_radians (Finite x) = Finite (x * pi / 180)"
  by (simp add: to_radians_def)

lemma to_degrees_Finite: "to_degrees (Finite x) = Finite (x * 180 / pi)"
  by (simp add: to_degrees_def)

lemma step_lat_Finite: "step_lat (Finite p) (Finite t) (Finite d) = Finite (direct_lat p t d)"
  using sphere_arg_bounded [of p d t] by (simp add: step_lat_def direct_lat_def)

lemma step_lon_Finite:
  "step_lon (Finite p) (Finite l) (Finite t) (Finite d) (Finite (direct_lat p t d)) =
   Finite (direct_lon p l t d)"
  by (simp add: step_lon_def direct_lon_def js_sub_def)

lemma distanceIn1Minute_Finite:
  "distanceIn1Minute eng (Num (Finite s)) = Inr (Finite (s * 0.0003 / 90))"
  by (simp add: distanceIn1Minute_def)

lemma leaflet_ready_update:
  "leaflet_ready (st\<lparr>markers := ms\<rparr>) = leaflet_ready st"
  "leaflet_ready (st\<lparr>directionLines := ls\<rparr>) = leaflet_ready st"
  by (simp_all add: leaflet_ready_def)

lemma leaflet_cases:
  "(case mapRef st of None \<Rightarrow> None | Some component \<Rightarrow> leafletObject component) = None \<longleftrightarrow>
   \<not> leaflet_ready st"
  by (simp add: leaflet_ready_def split: option.splits)

lemma calculateDirectionLine_Finite:
  "calculateDirectionLine eng st (Num (Finite la)) (Num (Finite lo)) (Num (Finite t)) (Num (Finite s)) =
     Inr (if t = 0 \<or> s = 0 \<or> \<not> leaflet_ready st then None
          else Some ((Num (Finite la), Num (Finite lo)),
                 (Num (Finite (direct_lat (la * pi / 180) (t * pi / 180) (s * 0.0003 / 90) * 180 / pi)),
                  Num (Finite (direct_lon (la * pi / 180) (lo * pi / 180) (t * pi / 180) (s * 0.0003 / 90) * 180 / pi)))))"
  by (simp add: calculateDirectionLine_def isNaN_def leaflet_ready_def to_radians_Finite
      to_degrees_Finite step_lat_Finite step_lon_Finite distanceIn1Minute_Finite Let_def
      split: option.splits)

text \<open>The three outcomes of the projection, each by the condition under which it occurs.\<close>

lemma calculateDirectionLine_Some_iff:
  "(\<exists>seg. calculateDirectionLine eng st lat lon track speed = Inr (Some seg)) \<longleftrightarrow>
     leaflet_ready st \<and> present eng track \<and> present eng speed \<and>
     convertible eng lat \<and> convertible eng lon"
  by (auto simp: calculateDirectionLine_def present_def convertible_def isNaN_def
      distanceIn1Minute_def leaflet_ready_def Let_def
      split: sum.splits bool.splits option.splits if_splits)

lemma calculateDirectionLine_None_iff:
  "calculateDirectionLine eng st lat lon track speed = Inr None \<longleftrightarrow>
     \<not> truthy track \<or> isNaN eng track = Inr True \<or>
     (present eng track \<and>
      (\<not> truthy speed \<or> isNaN eng speed = Inr True \<or>
       (present eng speed \<and> \<not> leaflet_ready st)))"
  by (auto simp: calculateDirectionLine_def present_def convertible_def isNaN_def
      distanceIn1Minute_def leaflet_ready_def Let_def
      split: sum.splits bool.splits option.splits if_splits)

lemma calculateDirectionLine_None_primitive:
  assumes "primitive track" and "primitive speed"
  shows "calculateDirectionLine eng st lat lon track speed = Inr None \<longleftrightarrow>
     \<not> leaflet_ready st \<or> \<not> present eng track \<or> \<not> present eng speed"
proof -
  from assms obtain a b where "isNaN eng track = Inr a" "isNaN eng speed = Inr b"
    using primitive_convertible convertible_isNaN by blast
  then show ?thesis
    unfolding calculateDirectionLine_None_iff by (auto simp: present_def)
qed

lemma calculateDirectionLine_TypeError:
  "calculateDirectionLine eng st lat lon track speed = Inl e \<Longrightarrow> e = TypeError"
  using isNaN_TypeError
  by (auto simp: calculateDirectionLine_def Let_def
      split: sum.splits bool.splits option.splits if_splits prod.splits)

lemma not_convertible_throws:
  "\<not> convertible eng v \<Longrightarrow> truthy v \<and> isNaN eng v = Inl TypeError"
  by (cases v) (auto simp: convertible_def isNaN_def split: option.splits)

lemma calculateDirectionLine_throws:
  assumes "\<not> convertible eng track \<or> (present eng track \<and> \<not> convertible eng speed)"
  shows "calculateDirectionLine eng st lat lon track speed = Inl TypeError"
  using assms not_convertible_throws [of eng track] not_convertible_throws [of eng speed]
  by (auto simp: calculateDirectionLine_def present_def)

lemma calculateDirectionLine_start:
  "calculateDirectionLine eng st lat lon track speed = Inr (Some seg) \<Longrightarrow> fst seg = (lat, lon)"
  by (auto simp: calculateDirectionLine_def Let_def
      split: sum.splits bool.splits option.splits if_splits prod.splits)

lemma east_lat_upper:
  fixes p d :: real
  assumes "0 \<le> p" and "p \<le> pi / 2"
  shows "direct_lat p (pi / 2) d \<le> p"
proof -
  have s: "0 \<le> sin p"
    using assms by (intro sin_ge_zero) auto
  have "sin p * cos d \<le> sin p * 1"
    by (rule mult_left_mono [OF _ s]) simp
  moreover have "\<bar>sin p * cos d\<bar> \<le> 1"
    using sphere_arg_bounded [of p d "pi / 2"] by (simp add: abs_le_iff)
  ultimately have "arcsin (sin p * cos d) \<le> arcsin (sin p)"
    by (simp add: arcsin_le_mono)
  also have "arcsin (sin p) = p"
    using assms by (intro arcsin_sin) auto
  finally show ?thesis
    by (simp add: direct_lat_def)
qed

lemma east_lat_lower:
  fixes p d e :: real
  assumes p: "0 \<le> p" "p \<le> pi / 4"
    and e: "0 \<le> e" "e \<le> p" "e \<le> 1"
    and de: "d\<^sup>2 < e"
  shows "p - e < direct_lat p (pi / 2) d"
proof -
  have pi0: "0 < pi" by simp
  have sp: "0 \<le> sin p"
    using p pi0 by (intro sin_ge_zero) linarith+
  have cp: "0 < cos p"
    using p pi0 by (intro cos_gt_zero_pi) linarith+
  have sc: "sin p \<le> cos p"
    using p by (rule sin_le_cos)
  have "sin (p - e) = sin p * cos e - cos p * sin e"
    by (rule sin_diff)
  also have "\<dots> \<le> sin p * 1 - cos p * (e / 2)"
  proof -
    have "sin p * cos e \<le> sin p * 1"
      by (rule mult_left_mono [OF _ sp]) simp
    moreover have "cos p * (e / 2) \<le> cos p * sin e"
      using sin_ge_half [OF e(1) e(3)] cp by (intro mult_left_mono) auto
    ultimately show ?thesis by linarith
  qed
  also have "\<dots> < sin p * 1 - sin p * (d\<^sup>2 / 2)"
  proof -
    have "sin p * (d\<^sup>2 / 2) \<le> cos p * (d\<^sup>2 / 2)"
      using sc by (intro mult_right_mono) auto
    moreover have "cos p * (d\<^sup>2 / 2) < cos p * (e / 2)"
      using de cp by (intro mult_strict_left_mono) auto
    ultimately show ?thesis by linarith
  qed
  also have "\<dots> \<le> sin p * cos d"
  proof -
    have "sin p * (1 - d\<^sup>2 / 2) \<le> sin p * cos d"
      using one_minus_cos_le [of d] by (intro mult_left_mono [OF _ sp]) linarith
    then show ?thesis by (simp add: algebra_simps)
  qed
  finally have less: "sin (p - e) < sin p * cos d" .
  have bound: "\<bar>sin p * cos d\<bar> \<le> 1"
    using sphere_arg_bounded [of p d "pi / 2"] by (simp add: abs_le_iff)
  have "arcsin (sin (p - e)) < arcsin (sin p * cos d)"
    using less bound by (simp add: arcsin_less_mono)
  moreover have "arcsin (sin (p - e)) = p - e"
    using p e pi0 by (intro arcsin_sin) linarith+
  ultimately show ?thesis
    by (simp add: direct_lat_def)
qed

lemma direct_lon_east:
  fixes p l d :: real
  assumes "- (pi / 2) < p" "p < pi / 2" "0 < d" "d < pi"
  shows "l < direct_lon p l (pi / 2) d"
proof -
  have "0 < sin d * cos p"
    using assms by (intro mult_pos_pos sin_gt_zero cos_gt_zero_pi) auto
  then have "0 < atan2 (sin (pi / 2) * sin d * cos p) (cos d - sin p * sin (direct_lat p (pi / 2) d))"
    by (intro atan2_pos) simp
  then show ?thesis
    by (simp add: direct_lon_def)
qed

lemma endLat_A1_bounds: "41 - 1 / 100000 < endLat_A1 \<and> endLat_A1 \<le> 41"
proof -
  have pi0: "0 < pi" by simp
  have pi3: "3 \<le> pi" by (rule pi_ge_three)
  have pi4: "pi < 4" by (rule pi_less_4)
  let ?p = "41 * pi / 180"
  let ?d = "1 / 2500 :: real"
  let ?e = "pi / 18000000"
  have lat: "endLat_A1 = direct_lat ?p (pi / 2) ?d * 180 / pi"
    by (simp add: endLat_A1_def)
  have "?d\<^sup>2 = 1 / 6250000" by (simp add: power2_eq_square)
  moreover have "1 / 6250000 < ?e" using pi3 by simp
  ultimately have de: "?d\<^sup>2 < ?e" by simp
  have lower: "?p - ?e < direct_lat ?p (pi / 2) ?d"
    using pi0 pi4 by (intro east_lat_lower de) simp_all
  have upper: "direct_lat ?p (pi / 2) ?d \<le> ?p"
    using pi0 by (intro east_lat_upper) simp_all
  have "(?p - ?e) * (180 / pi) < direct_lat ?p (pi / 2) ?d * (180 / pi)"
    using lower pi0 by (intro mult_strict_right_mono) simp_all
  moreover have "(?p - ?e) * (180 / pi) = 41 - 1 / 100000"
    using pi0 by (simp add: field_simps)
  moreover have "direct_lat ?p (pi / 2) ?d * (180 / pi) \<le> ?p * (180 / pi)"
    using upper pi0 by (intro mult_right_mono) simp_all
  moreover have "?p * (180 / pi) = 41"
    using pi0 by simp
  ultimately show ?thesis
    unfolding lat by simp
qed

lemma endLon_A1_east: "- 8 < endLon_A1"
proof -
  have pi0: "0 < pi" by simp
  have pi3: "3 \<le> pi" by (rule pi_ge_three)
  let ?p = "41 * pi / 180"
  let ?l = "- 8 * pi / 180"
  let ?d = "1 / 2500 :: real"
  have lon: "endLon_A1 = direct_lon ?p ?l (pi / 2) ?d * (180 / pi)"
    by (simp add: endLon_A1_def)
  have "?l < direct_lon ?p ?l (pi / 2) ?d"
    using pi0 pi3 by (intro direct_lon_east) simp_all
  then have "?l * (180 / pi) < direct_lon ?p ?l (pi / 2) ?d * (180 / pi)"
    using pi0 by (intro mult_strict_right_mono) simp_all
  moreover have "?l * (180 / pi) = - 8"
    using pi0 by simp
  ultimately show ?thesis
    unfolding lon by simp
qed

section \<open>Properties of a refresh\<close>

lemma direction_entry_unfold:
  assumes "m \<noteq> Undefined" and "m \<noteq> Null"
  shows "direction_entry eng st m =
     (if truthy (field m ''track'') then
        (case calculateDirectionLine eng st (field m ''lat'') (field m ''lon'')
                (field m ''track'') (field m ''gs'') of
           Inl e \<Rightarrow> Inl e
         | Inr None \<Rightarrow> Inr None
         | Inr (Some linePoints) \<Rightarrow> Inr (Some \<lparr>hex = field m ''hex'', line = linePoints\<rparr>))
      else Inr None)"
  using assms by (simp add: direction_entry_def get_prop_field)

lemma direction_entry_result:
  assumes "m \<noteq> Undefined" and "m \<noteq> Null" and "direction_entry eng st m = Inr l"
  shows "(l \<noteq> None \<longleftrightarrow>
            leaflet_ready st \<and> present eng (field m ''track'') \<and> present eng (field m ''gs'')) \<and>
         (\<forall>dl. l = Some dl \<longrightarrow>
            hex dl = field m ''hex'' \<and> fst (line dl) = (field m ''lat'', field m ''lon''))"
proof (cases "truthy (field m ''track'')")
  case False
  with assms show ?thesis
    by (auto simp: direction_entry_unfold present_def)
next
  case True
  let ?c = "calculateDirectionLine eng st (field m ''lat'') (field m ''lon'')
              (field m ''track'') (field m ''gs'')"
  show ?thesis
  proof (cases ?c)
    case (Inl e)
    with assms True show ?thesis by (simp add: direction_entry_unfold)
  next
    case (Inr r)
    show ?thesis
    proof (cases r)
      case None
      with Inr have "?c = Inr None" by simp
      then have "\<not> (leaflet_ready st \<and> present eng (field m ''track'') \<and>
                   present eng (field m ''gs''))"
        unfolding calculateDirectionLine_None_iff by (auto simp: present_def)
      moreover from assms True Inr None have "l = None"
        by (simp add: direction_entry_unfold)
      ultimately show ?thesis by simp
    next
      case (Some seg)
      with Inr have c: "?c = Inr (Some seg)" by simp
      then have "leaflet_ready st \<and> present eng (field m ''track'') \<and>
                 present eng (field m ''gs'')"
        using calculateDirectionLine_Some_iff [of eng st "field m ''lat''" "field m ''lon''"
            "field m ''track''" "field m ''gs''"] by blast
      moreover from assms True c have "l = Some \<lparr>hex = field m ''hex'', line = seg\<rparr>"
        by (simp add: direction_entry_unfold)
      ultimately show ?thesis
        using calculateDirectionLine_start [OF c] by simp
    qed
  qed
qed

lemma map_entries_nth:
  "map_entries f ms = Inr ls \<Longrightarrow>
   length ls = length ms \<and> (\<forall>i < length ms. f (ms ! i) = Inr (ls ! i))"
proof (induction ms arbitrary: ls)
  case Nil
  then show ?case by simp
next
  case (Cons m ms)
  then show ?case
    by (auto simp: nth_Cons split: sum.splits nat.splits)
qed

lemma getFlights_try_success:
  assumes "getFlights_try eng fr st = (st', None)"
  shows "\<exists>r data vm ls. fr = Resolved r \<and> ok r \<and> body r = Some data \<and>
           validMarkers eng data = Inr vm \<and>
           map_entries (direction_entry eng (st\<lparr>markers := vm\<rparr>)) vm = Inr ls \<and>
           st' = st\<lparr>markers := vm, directionLines := non_null ls\<rparr>"
  using assms
  by (auto simp: getFlights_try_def Let_def
      split: fetch_result.splits option.splits sum.splits if_splits)

lemma getFlights_try_failure:
  assumes "refresh_fails eng fr"
  shows "\<exists>e. getFlights_try eng fr st = (st, Some e)"
proof (cases fr)
  case Rejected
  then show ?thesis by (simp add: getFlights_try_def)
next
  case (Resolved r)
  show ?thesis
  proof (cases "\<not> ok r \<or> body r = None")
    case True
    with Resolved show ?thesis
      by (auto simp: getFlights_try_def)
  next
    case False
    then obtain data where data: "ok r" "body r = Some data" by auto
    with assms Resolved have "payload_throws eng data"
      by (simp add: refresh_fails_def)
    then obtain e where "validMarkers eng data = Inl e"
      using validMarkers_throws_iff by blast
    with Resolved data show ?thesis
      by (simp add: getFlights_try_def)
  qed
qed

lemma getFlights_try_lines_kept:
  assumes "snd (getFlights_try eng fr st) \<noteq> None"
  shows "directionLines (fst (getFlights_try eng fr st)) = directionLines st"
  using assms
  by (auto simp: getFlights_try_def Let_def
      split: fetch_result.splits option.splits sum.splits if_splits)

lemma getFlights_catches:
  "getFlights eng fr st = (fst (getFlights_try eng fr st), None)"
  by (simp add: getFlights_def split: prod.splits option.splits)

lemma getFlights_markers:
  "markers (fst (getFlights eng fr st)) = markers st \<or>
   (\<exists>data. validMarkers eng data = Inr (markers (fst (getFlights eng fr st))))"
  by (auto simp: getFlights_catches getFlights_try_def Let_def
      split: fetch_result.splits option.splits sum.splits if_splits)

lemma no_list_valid:
  assumes "data \<noteq> Undefined" and "data \<noteq> Null"
    and "field data ''ac'' = Undefined \<or> field data ''ac'' = Null"
  shows "validMarkers eng data = Inr []"
  using assms by (auto simp: validMarkers_def get_prop_field)

text \<open>The same for \<^verbatim>\<open>Map.vue\<close>.\<close>

lemma getFlights_try_Map_success:
  assumes "getFlights_try_Map eng fr st = (st', None)"
  shows "\<exists>r data vm ls. fr = Resolved r \<and> ok r \<and> body r = Some data \<and>
           validMarkers eng data = Inr vm \<and>
           map_entries (direction_entry_Map eng) vm = Inr ls \<and>
           st' = st\<lparr>markers := vm, directionLines := non_null ls\<rparr>"
  using assms
  by (auto simp: getFlights_try_Map_def Let_def
      split: fetch_result.splits option.splits sum.splits if_splits)

lemma getFlights_try_Map_failure:
  assumes "refresh_fails eng fr"
  shows "\<exists>e. getFlights_try_Map eng fr st = (st, Some e)"
proof (cases fr)
  case Rejected
  then show ?thesis by (simp add: getFlights_try_Map_def)
next
  case (Resolved r)
  show ?thesis
  proof (cases "\<not> ok r \<or> body r = None")
    case True
    with Resolved show ?thesis
      by (auto simp: getFlights_try_Map_def)
  next
    case False
    then obtain data where data: "ok r" "body r = Some data" by auto
    with assms Resolved have "payload_throws eng data"
      by (simp add: refresh_fails_def)
    then obtain e where "validMarkers eng data = Inl e"
      using validMarkers_throws_iff by blast
    with Resolved data show ?thesis
      by (simp add: getFlights_try_Map_def)
  qed
qed

lemma getFlights_try_Map_lines_kept:
  assumes "snd (getFlights_try_Map eng fr st) \<noteq> None"
  shows "directionLines (fst (getFlights_try_Map eng fr st)) = directionLines st"
  using assms
  by (auto simp: getFlights_try_Map_def Let_def
      split: fetch_result.splits option.splits sum.splits if_splits)

lemma getFlights_Map_catches:
  "getFlights_Map eng fr st = (fst (getFlights_try_Map eng fr st), None)"
  by (simp add: getFlights_Map_def split: prod.splits option.splits)

lemma getFlights_Map_markers:
  "markers (fst (getFlights_Map eng fr st)) = markers st \<or>
   (\<exists>data. validMarkers eng data = Inr (markers (fst (getFlights_Map eng fr st))))"
  by (auto simp: getFlights_Map_catches getFlights_try_Map_def Let_def
      split: fetch_result.splits option.splits sum.splits if_splits)

lemma calculateDirectionLine_Map_Finite:
  assumes "t \<noteq> 0"
  shows "calculateDirectionLine_Map eng (Num (Finite la)) (Num (Finite lo)) (Num (Finite t)) (Finite d) =
     (let p0 = la * pi / 180; l0 = lo * pi / 180; tr = t * pi / 180;
          p1 = direct_lat p0 tr 0.00001; l1 = direct_lon p0 l0 tr 0.00001;
          p2 = direct_lat p1 tr (d + 0.0002); l2 = direct_lon p1 l1 tr (d + 0.0002)
      in Inr (Some ((Num (Finite (p1 * 180 / pi)), Num (Finite (l1 * 180 / pi))),
                    (Num (Finite (p2 * 180 / pi)), Num (Finite (l2 * 180 / pi))))))"
  using assms
  by (simp add: calculateDirectionLine_Map_def isNaN_def to_radians_Finite to_degrees_Finite
      step_lat_Finite step_lon_Finite size_Map_def js_sub_def Let_def)

text \<open>The states either component reaches hold validated markers only.\<close>

lemma reachable_markers_valid:
  assumes "reachable refresh st"
    and step: "\<And>fr st. markers (fst (refresh fr st)) = markers st \<or>
                 (\<exists>data. validMarkers eng data = Inr (markers (fst (refresh fr st))))"
  shows "\<forall>m \<in> set (markers st). marker_valid eng m = Inr True"
  using assms(1)
proof (induction rule: reachable.induct)
  case start
  show ?case by (simp add: initial_def)
next
  case (widget st r)
  then show ?case by simp
next
  case (refreshed st fr)
  from step [of fr st] show ?case
  proof
    assume "markers (fst (refresh fr st)) = markers st"
    with refreshed.IH show ?thesis by simp
  next
    assume "\<exists>data. validMarkers eng data = Inr (markers (fst (refresh fr st)))"
    then show ?thesis
      using validMarkers_member_valid by blast
  qed
qed

lemma zero_not_valid:
  assumes "field m ''lat'' = Num (Finite 0) \<or> field m ''lon'' = Num (Finite 0)"
  shows "marker_valid eng m \<noteq> Inr True"
  using assms by (auto simp: marker_valid_True present_Num)

section \<open>The sample data\<close>

lemma leaflet_ready_samples:
  "leaflet_ready ready" "\<not> leaflet_ready initial" "leaflet_ready previous"
  "\<not> leaflet_ready mounting"
  by (simp_all add: leaflet_ready_def ready_def initial_def previous_def mounting_def)

lemma validMarkers_samples:
  "validMarkers eng (raw_snapshot [entry_A1]) = Inr [entry_A1]"
  "validMarkers eng (raw_snapshot [entry_north]) = Inr [entry_north]"
  "validMarkers eng (raw_snapshot [entry_still]) = Inr [entry_still]"
  "validMarkers eng (raw_snapshot [entry_B2]) = Inr []"
  "validMarkers eng (raw_snapshot [entry_P]) = Inr [entry_P]"
  by (simp_all add: validMarkers_raw_snapshot marker_valid_def isNaN_def
      entry_A1_def entry_north_def entry_still_def entry_B2_def entry_P_def)

lemma direction_entry_samples:
  "direction_entry eng st entry_anon = Inr None"
  "direction_entry eng st entry_far = Inr None"
  "direction_entry eng st entry_B2 = Inr None"
  "direction_entry eng st entry_north = Inr None"
  "direction_entry eng st entry_still = Inr None"
  "direction_entry eng st entry_A1 = Inr (if leaflet_ready st then Some line_A1 else None)"
  by (simp_all add: direction_entry_def entry_anon_def entry_far_def entry_B2_def entry_north_def
      entry_still_def entry_A1_def calculateDirectionLine_Finite line_A1_def
      endLat_A1_def endLon_A1_def split: option.splits)

lemma getFlights_try_A1:
  "getFlights_try eng (success [entry_A1]) st =
    (st\<lparr>markers := [entry_A1],
        directionLines := (if leaflet_ready st then [line_A1] else [])\<rparr>, None)"
  by (simp add: getFlights_try_def success_def ok_def validMarkers_samples
      direction_entry_samples leaflet_ready_update non_null_def)

lemma getFlights_try_ready_A1:
  "getFlights_try eng (success [entry_A1]) ready = (previous, None)"
  by (simp add: getFlights_try_A1 leaflet_ready_samples previous_def)

text \<open>
  The entry whose track cannot be converted passes the validation and makes the
  projection throw: the refresh stores it and keeps the old direction lines.
\<close>

lemma direction_entry_P:
  "direction_entry sample_engine st entry_P = Inl TypeError"
  by (simp add: direction_entry_def entry_P_def calculateDirectionLine_def isNaN_def
      sample_engine_def)

lemma getFlights_with_P:
  "getFlights sample_engine with_P previous = (previous\<lparr>markers := [entry_P]\<rparr>, None)"
  by (simp add: getFlights_catches getFlights_try_def with_P_def ok_def validMarkers_samples
      direction_entry_P)

section \<open>The properties of the specification\<close>

text \<open>
  C1 (amended). For a track other than the number 0, the projection returns a segment
  exactly when the map widget is ready, both track and speed pass the guard
  \<^verbatim>\<open>!x || isNaN(x)\<close> (they are truthy and convert to a number other than NaN, so a number
  passes when it is neither NaN nor 0), and latitude and longitude convert to numbers.
  For a track other than 0, when track and speed are primitive values (missing,
  \<^verbatim>\<open>null\<close>, a boolean, a number or a string), it returns \<^verbatim>\<open>null\<close> exactly when the widget
  is not ready or track or speed fails that guard. A track that cannot be converted to
  a number, or such a speed beside a track that passes the guard, makes the call throw a
  TypeError. After a successful refresh the
  direction lines are, in the order of the markers, the segments of the markers; a marker
  whose track is not 0 has a segment exactly when the widget is ready and its track and
  ground speed pass that guard, and every segment carries its marker's \<^verbatim>\<open>hex\<close> and starts
  at its position. So a ground speed of 0 yields no segment, and neither does any entry
  while the widget is not ready. Entries whose track is exactly 0 are outside this
  statement.
\<close>

theorem heading_segment_iff:
  "(track \<noteq> Num (Finite 0) \<longrightarrow>
      ((\<exists>seg. calculateDirectionLine eng st lat lon track speed = Inr (Some seg)) \<longleftrightarrow>
         leaflet_ready st \<and> present eng track \<and> present eng speed \<and>
         convertible eng lat \<and> convertible eng lon)) \<and>
   (track \<noteq> Num (Finite 0) \<and> primitive track \<and> primitive speed \<longrightarrow>
      (calculateDirectionLine eng st lat lon track speed = Inr None \<longleftrightarrow>
         \<not> leaflet_ready st \<or> \<not> present eng track \<or> \<not> present eng speed)) \<and>
   (\<not> convertible eng track \<or> (present eng track \<and> \<not> convertible eng speed) \<longrightarrow>
      calculateDirectionLine eng st lat lon track speed = Inl TypeError) \<and>
   (getFlights_try eng fr st = (st', None) \<longrightarrow>
      (\<exists>ls. directionLines st' = non_null ls \<and> length ls = length (markers st') \<and>
         (\<forall>i < length ls.
            (field (markers st' ! i) ''track'' \<noteq> Num (Finite 0) \<longrightarrow>
               (ls ! i \<noteq> None \<longleftrightarrow>
                  leaflet_ready st \<and>
                  present eng (field (markers st' ! i) ''track'') \<and>
                  present eng (field (markers st' ! i) ''gs''))) \<and>
            (\<forall>dl. ls ! i = Some dl \<longrightarrow>
               hex dl = field (markers st' ! i) ''hex'' \<and>
               fst (line dl) =
                 (field (markers st' ! i) ''lat'', field (markers st' ! i) ''lon'')))))"
proof (intro conjI impI)
  show "(\<exists>seg. calculateDirectionLine eng st lat lon track speed = Inr (Some seg)) \<longleftrightarrow>
      leaflet_ready st \<and> present eng track \<and> present eng speed \<and>
      convertible eng lat \<and> convertible eng lon"
    by (rule calculateDirectionLine_Some_iff)
next
  assume "track \<noteq> Num (Finite 0) \<and> primitive track \<and> primitive speed"
  then show "calculateDirectionLine eng st lat lon track speed = Inr None \<longleftrightarrow>
      \<not> leaflet_ready st \<or> \<not> present eng track \<or> \<not> present eng speed"
    using calculateDirectionLine_None_primitive by blast
next
  assume "\<not> convertible eng track \<or> (present eng track \<and> \<not> convertible eng speed)"
  then show "calculateDirectionLine eng st lat lon track speed = Inl TypeError"
    by (rule calculateDirectionLine_throws)
next
  assume run: "getFlights_try eng fr st = (st', None)"
  from getFlights_try_success [OF run]
  obtain data vm ls where vm: "validMarkers eng data = Inr vm"
    and run_ls: "map_entries (direction_entry eng (st\<lparr>markers := vm\<rparr>)) vm = Inr ls"
    and st': "st' = st\<lparr>markers := vm, directionLines := non_null ls\<rparr>"
    by blast
  let ?st1 = "st\<lparr>markers := vm\<rparr>"
  from map_entries_nth [OF run_ls]
  have ls: "length ls = length vm"
    "\<forall>i < length vm. direction_entry eng ?st1 (vm ! i) = Inr (ls ! i)"
    by blast+
  from st' have lines: "directionLines st' = non_null ls" by simp
  have ready: "leaflet_ready ?st1 = leaflet_ready st"
    by (rule leaflet_ready_update)
  have "(field (vm ! i) ''track'' \<noteq> Num (Finite 0) \<longrightarrow>
           (ls ! i \<noteq> None \<longleftrightarrow>
              leaflet_ready st \<and> present eng (field (vm ! i) ''track'') \<and>
              present eng (field (vm ! i) ''gs''))) \<and>
        (\<forall>dl. ls ! i = Some dl \<longrightarrow>
           hex dl = field (vm ! i) ''hex'' \<and>
           fst (line dl) = (field (vm ! i) ''lat'', field (vm ! i) ''lon''))"
    if "i < length ls" for i
  proof -
    from that ls(1) have i: "i < length vm" by simp
    then have "vm ! i \<in> set vm" by simp
    then have nn: "vm ! i \<noteq> Undefined" "vm ! i \<noteq> Null"
      using validMarkers_not_null [OF vm] by blast+
    from ls(2) i have "direction_entry eng ?st1 (vm ! i) = Inr (ls ! i)" by blast
    from direction_entry_result [OF nn this] ready show ?thesis by simp
  qed
  with lines ls(1) st' show "\<exists>ls. directionLines st' = non_null ls \<and>
      length ls = length (markers st') \<and>
      (\<forall>i < length ls.
         (field (markers st' ! i) ''track'' \<noteq> Num (Finite 0) \<longrightarrow>
            (ls ! i \<noteq> None \<longleftrightarrow>
               leaflet_ready st \<and>
               present eng (field (markers st' ! i) ''track'') \<and>
               present eng (field (markers st' ! i) ''gs''))) \<and>
         (\<forall>dl. ls ! i = Some dl \<longrightarrow>
            hex dl = field (markers st' ! i) ''hex'' \<and>
            fst (line dl) =
              (field (markers st' ! i) ''lat'', field (markers st' ! i) ''lon'')))"
    by (intro exI [of _ ls]) simp
qed

theorem heading_segment_iff_witness:
  "Num (Finite 90) \<noteq> Num (Finite 0) \<and>
   primitive (Num (Finite 90)) \<and> primitive (Num (Finite 120)) \<and>
   getFlights_try sample_engine (success [entry_A1]) ready = (previous, None) \<and>
   (\<exists>seg. calculateDirectionLine sample_engine ready (Num (Finite 41)) (Num (Finite (- 8)))
      (Num (Finite 90)) (Num (Finite 120)) = Inr (Some seg)) \<and>
   calculateDirectionLine sample_engine ready (Num (Finite 41)) (Num (Finite (- 8)))
     (Num (Finite 90)) (Num (Finite 120)) \<noteq> Inr None \<and>
   \<not> convertible sample_engine (Obj [(''toString'', Num (Finite 0))]) \<and>
   calculateDirectionLine sample_engine ready (Num (Finite 41)) (Num (Finite (- 8)))
     (Obj [(''toString'', Num (Finite 0))]) (Num (Finite 120)) = Inl TypeError \<and>
   (\<exists>ls. directionLines previous = non_null ls \<and> length ls = length (markers previous) \<and>
      (\<forall>i < length ls.
         (field (markers previous ! i) ''track'' \<noteq> Num (Finite 0) \<longrightarrow>
            (ls ! i \<noteq> None \<longleftrightarrow>
               leaflet_ready ready \<and>
               present sample_engine (field (markers previous ! i) ''track'') \<and>
               present sample_engine (field (markers previous ! i) ''gs''))) \<and>
         (\<forall>dl. ls ! i = Some dl \<longrightarrow>
            hex dl = field (markers previous ! i) ''hex'' \<and>
            fst (line dl) =
              (field (markers previous ! i) ''lat'', field (markers previous ! i) ''lon''))))"
proof -
  have run: "getFlights_try sample_engine (success [entry_A1]) ready = (previous, None)"
    by (rule getFlights_try_ready_A1)
  have p: "present sample_engine (Num (Finite 90))" "present sample_engine (Num (Finite 120))"
    by (simp_all add: present_Num)
  have c: "convertible sample_engine (Num (Finite 41))"
    "convertible sample_engine (Num (Finite (- 8)))"
    by (simp_all add: convertible_def)
  have pr: "primitive (Num (Finite 90))" "primitive (Num (Finite 120))"
    by (simp_all add: primitive_def)
  have nc: "\<not> convertible sample_engine (Obj [(''toString'', Num (Finite 0))])"
    by (simp add: convertible_def sample_engine_def)
  from nc
    heading_segment_iff [of "Obj [(''toString'', Num (Finite 0))]" sample_engine ready
      "Num (Finite 41)" "Num (Finite (- 8))" "Num (Finite 120)" Rejected previous]
  have thrown: "calculateDirectionLine sample_engine ready (Num (Finite 41)) (Num (Finite (- 8)))
      (Obj [(''toString'', Num (Finite 0))]) (Num (Finite 120)) = Inl TypeError"
    by blast
  from run p c pr leaflet_ready_samples(1)
    heading_segment_iff [of "Num (Finite 90)" sample_engine ready "Num (Finite 41)"
      "Num (Finite (- 8))" "Num (Finite 120)" "success [entry_A1]" previous]
  have "(\<exists>seg. calculateDirectionLine sample_engine ready (Num (Finite 41)) (Num (Finite (- 8)))
        (Num (Finite 90)) (Num (Finite 120)) = Inr (Some seg)) \<and>
     calculateDirectionLine sample_engine ready (Num (Finite 41)) (Num (Finite (- 8)))
       (Num (Finite 90)) (Num (Finite 120)) \<noteq> Inr None \<and>
     (\<exists>ls. directionLines previous = non_null ls \<and> length ls = length (markers previous) \<and>
        (\<forall>i < length ls.
           (field (markers previous ! i) ''track'' \<noteq> Num (Finite 0) \<longrightarrow>
              (ls ! i \<noteq> None \<longleftrightarrow>
                 leaflet_ready ready \<and>
                 present sample_engine (field (markers previous ! i) ''track'') \<and>
                 present sample_engine (field (markers previous ! i) ''gs''))) \<and>
           (\<forall>dl. ls ! i = Some dl \<longrightarrow>
              hex dl = field (markers previous ! i) ''hex'' \<and>
              fst (line dl) =
                (field (markers previous ! i) ''lat'', field (markers previous ! i) ''lon''))))"
    by simp
  with run pr nc thrown show ?thesis by simp
qed

text \<open>
  Stated without the widget and with 0 as a valid ground speed, C1 fails: the entry A1
  yields no segment in the initial state, nor while the map component is mounted and its
  map not created yet, and an entry with track 90 and ground speed 0 yields none with the
  widget ready.
\<close>

theorem heading_segment_iff_counterexample:
  "getFlights sample_engine (success [entry_A1]) initial =
     (initial\<lparr>markers := [entry_A1], directionLines := []\<rparr>, None) \<and>
   getFlights sample_engine (success [entry_A1]) mounting =
     (mounting\<lparr>markers := [entry_A1], directionLines := []\<rparr>, None) \<and>
   getFlights sample_engine (success [entry_still]) ready =
     (ready\<lparr>markers := [entry_still], directionLines := []\<rparr>, None)"
  by (simp add: getFlights_catches getFlights_try_def success_def ok_def validMarkers_samples
      direction_entry_samples leaflet_ready_samples leaflet_ready_update non_null_def)

text \<open>
  C2 (amended). No exception of a refresh reaches the caller of \<^verbatim>\<open>getFlights\<close>, in either
  component. When the fetch rejects, the status is not in 200 to 299, the body does not
  parse as JSON, or the validation of the payload throws, the \<^verbatim>\<open>try\<close> block throws and the
  state after the refresh is the state before it. The validation throws exactly when the
  payload is \<^verbatim>\<open>null\<close>, has under \<^verbatim>\<open>ac\<close> a value that is neither missing nor \<^verbatim>\<open>null\<close> nor an
  array, or has an entry that is \<^verbatim>\<open>null\<close> or whose latitude and longitude are truthy and
  one of them cannot be converted to a number when \<^verbatim>\<open>isNaN\<close> reaches it. In every refresh
  whose \<^verbatim>\<open>try\<close> block throws, the direction lines keep their value. A payload other than
  \<^verbatim>\<open>null\<close> without \<^verbatim>\<open>ac\<close> (an object without the field, but also a number, a string or
  an array), or with \<^verbatim>\<open>ac: null\<close>, makes nothing throw: the refresh replaces both lists
  by empty ones.
\<close>

theorem failed_refresh_keeps_snapshot:
  "snd (getFlights eng fr st) = None \<and> snd (getFlights_Map eng fr st) = None \<and>
   ((\<exists>e. validMarkers eng data = Inl e) \<longleftrightarrow> payload_throws eng data) \<and>
   (refresh_fails eng fr \<longrightarrow>
      snd (getFlights_try eng fr st) \<noteq> None \<and> snd (getFlights_try_Map eng fr st) \<noteq> None \<and>
      getFlights eng fr st = (st, None) \<and> getFlights_Map eng fr st = (st, None)) \<and>
   (snd (getFlights_try eng fr st) \<noteq> None \<longrightarrow>
      directionLines (fst (getFlights eng fr st)) = directionLines st) \<and>
   (snd (getFlights_try_Map eng fr st) \<noteq> None \<longrightarrow>
      directionLines (fst (getFlights_Map eng fr st)) = directionLines st) \<and>
   (ok r \<and> body r = Some payload \<and> payload \<noteq> Undefined \<and> payload \<noteq> Null \<and>
    (field payload ''ac'' = Undefined \<or> field payload ''ac'' = Null) \<longrightarrow>
      getFlights eng (Resolved r) st = (st\<lparr>markers := [], directionLines := []\<rparr>, None) \<and>
      getFlights_Map eng (Resolved r) st = (st\<lparr>markers := [], directionLines := []\<rparr>, None))"
proof (intro conjI impI)
  show "snd (getFlights eng fr st) = None" "snd (getFlights_Map eng fr st) = None"
    by (simp_all add: getFlights_catches getFlights_Map_catches)
  show "(\<exists>e. validMarkers eng data = Inl e) \<longleftrightarrow> payload_throws eng data"
    by (rule validMarkers_throws_iff)
next
  assume f: "refresh_fails eng fr"
  from getFlights_try_failure [OF f, of st]
  obtain e where e: "getFlights_try eng fr st = (st, Some e)" by blast
  from getFlights_try_Map_failure [OF f, of st]
  obtain e' where e': "getFlights_try_Map eng fr st = (st, Some e')" by blast
  from e show "snd (getFlights_try eng fr st) \<noteq> None" by simp
  from e' show "snd (getFlights_try_Map eng fr st) \<noteq> None" by simp
  from e show "getFlights eng fr st = (st, None)"
    by (simp add: getFlights_catches)
  from e' show "getFlights_Map eng fr st = (st, None)"
    by (simp add: getFlights_Map_catches)
next
  assume "snd (getFlights_try eng fr st) \<noteq> None"
  from getFlights_try_lines_kept [OF this]
  show "directionLines (fst (getFlights eng fr st)) = directionLines st"
    by (simp add: getFlights_catches)
next
  assume "snd (getFlights_try_Map eng fr st) \<noteq> None"
  from getFlights_try_Map_lines_kept [OF this]
  show "directionLines (fst (getFlights_Map eng fr st)) = directionLines st"
    by (simp add: getFlights_Map_catches)
next
  assume a: "ok r \<and> body r = Some payload \<and> payload \<noteq> Undefined \<and> payload \<noteq> Null \<and>
    (field payload ''ac'' = Undefined \<or> field payload ''ac'' = Null)"
  then have vm: "validMarkers eng payload = Inr []"
    using no_list_valid [of payload eng] by blast
  with a show "getFlights eng (Resolved r) st = (st\<lparr>markers := [], directionLines := []\<rparr>, None)"
    by (simp add: getFlights_catches getFlights_try_def non_null_def)
  from vm a
  show "getFlights_Map eng (Resolved r) st = (st\<lparr>markers := [], directionLines := []\<rparr>, None)"
    by (simp add: getFlights_Map_catches getFlights_try_Map_def non_null_def)
qed

theorem failed_refresh_keeps_snapshot_witness:
  "refresh_fails sample_engine (Resolved \<lparr>status = 503, body = None\<rparr>) \<and>
   getFlights sample_engine (Resolved \<lparr>status = 503, body = None\<rparr>) previous = (previous, None) \<and>
   getFlights_Map sample_engine (Resolved \<lparr>status = 503, body = None\<rparr>) previous =
     (previous, None) \<and>
   snd (getFlights_try sample_engine with_P previous) \<noteq> None \<and>
   directionLines (fst (getFlights sample_engine with_P previous)) = directionLines previous \<and>
   ok \<lparr>status = 200, body = Some (Obj [])\<rparr> \<and>
   field (Obj []) ''ac'' = Undefined \<and>
   getFlights sample_engine (Resolved \<lparr>status = 200, body = Some (Obj [])\<rparr>) previous =
     (previous\<lparr>markers := [], directionLines := []\<rparr>, None)"
proof -
  have f: "refresh_fails sample_engine (Resolved \<lparr>status = 503, body = None\<rparr>)"
    by (simp add: refresh_fails_def ok_def)
  have o: "ok \<lparr>status = 200, body = Some (Obj [])\<rparr>" "field (Obj []) ''ac'' = Undefined"
    by (simp_all add: ok_def field_def)
  have t: "snd (getFlights_try sample_engine with_P previous) \<noteq> None"
    by (simp add: getFlights_try_def with_P_def ok_def validMarkers_samples direction_entry_P)
  from f o
    failed_refresh_keeps_snapshot [of sample_engine "Resolved \<lparr>status = 503, body = None\<rparr>"
      previous Null "\<lparr>status = 200, body = Some (Obj [])\<rparr>" "Obj []"]
  have one: "getFlights sample_engine (Resolved \<lparr>status = 503, body = None\<rparr>) previous =
      (previous, None) \<and>
    getFlights_Map sample_engine (Resolved \<lparr>status = 503, body = None\<rparr>) previous =
      (previous, None) \<and>
    getFlights sample_engine (Resolved \<lparr>status = 200, body = Some (Obj [])\<rparr>) previous =
      (previous\<lparr>markers := [], directionLines := []\<rparr>, None)"
    by simp
  from t failed_refresh_keeps_snapshot [of sample_engine with_P previous Null
      "\<lparr>status = 200, body = Some (Obj [])\<rparr>" "Obj []"]
  have two: "directionLines (fst (getFlights sample_engine with_P previous)) =
      directionLines previous"
    by blast
  from f o t one two show ?thesis by blast
qed

text \<open>
  Stated for every malformed top-level payload, C2 fails: after the snapshot with A1, a
  response with status 200 whose payload is \<^verbatim>\<open>{}\<close>, or the string \<^verbatim>\<open>"unavailable"\<close>,
  leaves both lists empty.
\<close>

theorem failed_refresh_keeps_snapshot_counterexample:
  "markers previous = [entry_A1] \<and> directionLines previous = [line_A1] \<and>
   getFlights sample_engine no_list previous =
     (previous\<lparr>markers := [], directionLines := []\<rparr>, None) \<and>
   getFlights sample_engine not_object previous =
     (previous\<lparr>markers := [], directionLines := []\<rparr>, None)"
  by (simp add: previous_def no_list_def not_object_def getFlights_catches getFlights_try_def
      ok_def validMarkers_def non_null_def)

text \<open>
  C3 (amended). After every successful refresh the markers list is a subsequence of the raw
  entries, in their order. Every stored record has a latitude and a longitude that are
  present (neither missing nor \<^verbatim>\<open>null\<close>) and not NaN, and every raw entry whose latitude
  or longitude is missing, \<^verbatim>\<open>null\<close> or NaN is absent from the list. No identifier is
  asked for and none is compared, and an infinite coordinate is not rejected. The snapshot
  with the single entry B2, whose latitude is NaN, yields an empty markers list and an
  empty list of direction lines.
\<close>

theorem stored_markers_valid:
  "(getFlights_try eng (Resolved r) st = (st', None) \<and> body r = Some data \<longrightarrow>
      subseq (markers st') (raw_entries data) \<and>
      (\<forall>m \<in> set (markers st').
         field m ''lat'' \<noteq> Undefined \<and> field m ''lat'' \<noteq> Null \<and>
         isNaN eng (field m ''lat'') = Inr False \<and>
         field m ''lon'' \<noteq> Undefined \<and> field m ''lon'' \<noteq> Null \<and>
         isNaN eng (field m ''lon'') = Inr False) \<and>
      (\<forall>m. field m ''lat'' = Undefined \<or> field m ''lat'' = Null \<or>
           isNaN eng (field m ''lat'') = Inr True \<or>
           field m ''lon'' = Undefined \<or> field m ''lon'' = Null \<or>
           isNaN eng (field m ''lon'') = Inr True \<longrightarrow>
         m \<notin> set (markers st'))) \<and>
   getFlights eng (success [entry_B2]) st = (st\<lparr>markers := [], directionLines := []\<rparr>, None)"
proof (intro conjI impI)
  assume a: "getFlights_try eng (Resolved r) st = (st', None) \<and> body r = Some data"
  from getFlights_try_success [of eng "Resolved r" st st'] a
  obtain vm ls where vm: "validMarkers eng data = Inr vm"
    and st': "st' = st\<lparr>markers := vm, directionLines := non_null ls\<rparr>"
    by auto
  from st' have m: "markers st' = vm" by simp
  show "subseq (markers st') (raw_entries data)"
    using validMarkers_eq_filter [OF vm] m by simp
  show valid: "\<forall>m \<in> set (markers st').
      field m ''lat'' \<noteq> Undefined \<and> field m ''lat'' \<noteq> Null \<and>
      isNaN eng (field m ''lat'') = Inr False \<and>
      field m ''lon'' \<noteq> Undefined \<and> field m ''lon'' \<noteq> Null \<and>
      isNaN eng (field m ''lon'') = Inr False"
    using validMarkers_member_valid [OF vm] m present_not_missing [of eng]
    by (simp add: marker_valid_True)
  show "\<forall>m. field m ''lat'' = Undefined \<or> field m ''lat'' = Null \<or>
        isNaN eng (field m ''lat'') = Inr True \<or>
        field m ''lon'' = Undefined \<or> field m ''lon'' = Null \<or>
        isNaN eng (field m ''lon'') = Inr True \<longrightarrow>
      m \<notin> set (markers st')"
    using valid by fastforce
next
  show "getFlights eng (success [entry_B2]) st =
      (st\<lparr>markers := [], directionLines := []\<rparr>, None)"
    by (simp add: getFlights_catches getFlights_try_def success_def ok_def validMarkers_samples
        non_null_def)
qed

theorem stored_markers_valid_witness:
  "getFlights_try sample_engine (Resolved \<lparr>status = 200, body = Some (raw_snapshot [entry_A1])\<rparr>)
     ready = (previous, None) \<and>
   body \<lparr>status = 200, body = Some (raw_snapshot [entry_A1])\<rparr> = Some (raw_snapshot [entry_A1]) \<and>
   subseq (markers previous) (raw_entries (raw_snapshot [entry_A1])) \<and>
   entry_A1 \<in> set (markers previous) \<and>
   isNaN sample_engine (field entry_A1 ''lat'') = Inr False \<and>
   isNaN sample_engine (field entry_A1 ''lon'') = Inr False \<and>
   isNaN sample_engine (field entry_B2 ''lat'') = Inr True \<and>
   entry_B2 \<notin> set (markers previous)"
proof -
  have run: "getFlights_try sample_engine
      (Resolved \<lparr>status = 200, body = Some (raw_snapshot [entry_A1])\<rparr>) ready = (previous, None)"
    using getFlights_try_ready_A1 [of sample_engine] by (simp add: success_def)
  have b2: "isNaN sample_engine (field entry_B2 ''lat'') = Inr True"
    by (simp add: isNaN_def field_def entry_B2_def)
  have a1: "entry_A1 \<in> set (markers previous)"
    by (simp add: previous_def)
  have body: "body \<lparr>status = 200, body = Some (raw_snapshot [entry_A1])\<rparr> =
      Some (raw_snapshot [entry_A1])"
    by simp
  from run body
    stored_markers_valid [of sample_engine "\<lparr>status = 200, body = Some (raw_snapshot [entry_A1])\<rparr>"
      ready previous "raw_snapshot [entry_A1]"]
  have inst: "subseq (markers previous) (raw_entries (raw_snapshot [entry_A1])) \<and>
    (\<forall>m \<in> set (markers previous).
       field m ''lat'' \<noteq> Undefined \<and> field m ''lat'' \<noteq> Null \<and>
       isNaN sample_engine (field m ''lat'') = Inr False \<and>
       field m ''lon'' \<noteq> Undefined \<and> field m ''lon'' \<noteq> Null \<and>
       isNaN sample_engine (field m ''lon'') = Inr False) \<and>
    (\<forall>m. field m ''lat'' = Undefined \<or> field m ''lat'' = Null \<or>
         isNaN sample_engine (field m ''lat'') = Inr True \<or>
         field m ''lon'' = Undefined \<or> field m ''lon'' = Null \<or>
         isNaN sample_engine (field m ''lon'') = Inr True \<longrightarrow>
       m \<notin> set (markers previous))"
    by blast
  with b2 have "entry_B2 \<notin> set (markers previous)" by blast
  with run body inst a1 b2 show ?thesis by blast
qed

text \<open>
  Stated with a required, unique identifier and finite coordinates, C3 fails: a snapshot
  with an entry without \<^verbatim>\<open>hex\<close>, the entry A1 twice and an entry with an infinite
  latitude is stored whole.
\<close>

theorem stored_markers_valid_counterexample:
  "getFlights sample_engine (success [entry_anon, entry_A1, entry_A1, entry_far]) initial =
     (initial\<lparr>markers := [entry_anon, entry_A1, entry_A1, entry_far], directionLines := []\<rparr>, None) \<and>
   field entry_anon ''hex'' = Undefined \<and>
   field entry_far ''lat'' = Num (Infinite True)"
proof -
  have "validMarkers sample_engine (raw_snapshot [entry_anon, entry_A1, entry_A1, entry_far]) =
      Inr [entry_anon, entry_A1, entry_A1, entry_far]"
    by (simp add: validMarkers_raw_snapshot marker_valid_def isNaN_def
        entry_anon_def entry_A1_def entry_far_def)
  then have "getFlights sample_engine (success [entry_anon, entry_A1, entry_A1, entry_far]) initial =
     (initial\<lparr>markers := [entry_anon, entry_A1, entry_A1, entry_far], directionLines := []\<rparr>, None)"
    by (simp add: getFlights_catches getFlights_try_def success_def ok_def
        direction_entry_samples leaflet_ready_samples leaflet_ready_update non_null_def)
  moreover have "field entry_anon ''hex'' = Undefined" "field entry_far ''lat'' = Num (Infinite True)"
    by (simp_all add: field_def entry_anon_def entry_far_def)
  ultimately show ?thesis by simp
qed

text \<open>
  C4. The angular distance the projection uses for the end point is the ground speed times
  \<open>0.0003 / 90\<close>, in radians. For 120 knots it is \<open>4.0e-4\<close>; it is not the two minutes of
  arc, \<open>120 \<times> \<pi> / 648000\<close> radians, that one minute of flight at 120 knots covers.
\<close>

theorem angular_distance_120:
  "distanceIn1Minute sample_engine (Num (Finite 120)) = Inr (Finite (1 / 2500)) \<and>
   distanceIn1Minute sample_engine (Num (Finite 120)) \<noteq> Inr (Finite (120 * 1 * pi / 648000))"
proof -
  have "3 \<le> pi" by (rule pi_ge_three)
  then have "(1 :: real) / 2500 \<noteq> 120 * 1 * pi / 648000" by simp
  then show ?thesis
    by (simp add: distanceIn1Minute_Finite)
qed

text \<open>
  C5 (amended). With the map widget ready, a refresh with the single entry A1 (latitude 41,
  longitude -8, track 90, ground speed 120) stores that entry and exactly one direction
  line, with hex A1, whose segment starts at (41, -8) and ends at a longitude strictly
  greater than -8 and at a latitude at most 41 and less than \<open>1e-5\<close> degrees below it (in
  exact arithmetic). With the widget not ready the same refresh yields no segment.
\<close>

theorem scenario_A1:
  assumes "leaflet_ready st"
  shows "getFlights eng (success [entry_A1]) st =
           (st\<lparr>markers := [entry_A1], directionLines := [line_A1]\<rparr>, None) \<and>
         hex line_A1 = Str ''A1'' \<and>
         line line_A1 = ((Num (Finite 41), Num (Finite (- 8))),
                         (Num (Finite endLat_A1), Num (Finite endLon_A1))) \<and>
         - 8 < endLon_A1 \<and> 41 - 1 / 100000 < endLat_A1 \<and> endLat_A1 \<le> 41"
proof -
  have "getFlights eng (success [entry_A1]) st =
      (st\<lparr>markers := [entry_A1], directionLines := [line_A1]\<rparr>, None)"
    using assms by (simp add: getFlights_catches getFlights_try_A1)
  then show ?thesis
    using endLat_A1_bounds endLon_A1_east by (simp add: line_A1_def)
qed

theorem scenario_A1_witness:
  "leaflet_ready ready \<and>
   getFlights sample_engine (success [entry_A1]) ready = (previous, None) \<and>
   directionLines previous = [line_A1] \<and>
   - 8 < endLon_A1 \<and> 41 - 1 / 100000 < endLat_A1 \<and> endLat_A1 \<le> 41"
  using scenario_A1 [OF leaflet_ready_samples(1), of sample_engine] leaflet_ready_samples(1)
  by (simp add: previous_def)

text \<open>
  Stated without the widget, C5 fails: in the initial state, and while the map component
  is mounted and its map not created yet, the refresh with A1 yields no segment.
\<close>

theorem scenario_A1_counterexample:
  "directionLines (fst (getFlights sample_engine (success [entry_A1]) initial)) = [] \<and>
   directionLines (fst (getFlights sample_engine (success [entry_A1]) mounting)) = []"
  by (simp add: getFlights_catches getFlights_try_A1 leaflet_ready_samples)

text \<open>
  C6 (amended). For every finite position and finite track, the projection called with a
  ground speed of 0 does not throw and returns \<^verbatim>\<open>null\<close>: no segment, not a zero-length
  one.
\<close>

theorem zero_speed_no_segment:
  "calculateDirectionLine eng st (Num (Finite la)) (Num (Finite lo)) (Num (Finite t))
     (Num (Finite 0)) = Inr None"
  by (simp add: calculateDirectionLine_Finite)

theorem zero_speed_no_segment_witness:
  "calculateDirectionLine sample_engine previous (Num (Finite 38.7)) (Num (Finite (- 9.1)))
     (Num (Finite 270)) (Num (Finite 0)) = Inr None"
  using zero_speed_no_segment [of sample_engine previous "38.7" "- 9.1" 270]
  by simp

text \<open>
  Stated with a zero-length segment as the result, C6 fails: at the position (41, -8)
  with track 90 and ground speed 0, widget ready, the projection returns \<^verbatim>\<open>null\<close>.
\<close>

theorem zero_speed_no_segment_counterexample:
  "calculateDirectionLine sample_engine ready (Num (Finite 41)) (Num (Finite (- 8)))
     (Num (Finite 90)) (Num (Finite 0)) = Inr None"
  by (simp add: calculateDirectionLine_def isNaN_def)

text \<open>
  C7 (amended). Every segment the projection of the one-minute view returns starts exactly
  at the position \<open>(lat, lon)\<close> it was given. The projection of \<^verbatim>\<open>Map.vue\<close> starts its
  segment at the point \<open>0.00001\<close> radians along the track from the position.
\<close>

theorem segment_start:
  "(calculateDirectionLine eng st lat lon track speed = Inr (Some seg) \<longrightarrow>
      fst seg = (lat, lon)) \<and>
   (t \<noteq> 0 \<longrightarrow>
      map_sum id (map_option fst)
        (calculateDirectionLine_Map eng (Num (Finite la)) (Num (Finite lo))
           (Num (Finite t)) (Finite d)) =
      Inr (Some (Num (Finite (direct_lat (la * pi / 180) (t * pi / 180) 0.00001 * 180 / pi)),
                 Num (Finite (direct_lon (la * pi / 180) (lo * pi / 180) (t * pi / 180) 0.00001
                                * 180 / pi)))))"
  using calculateDirectionLine_start [of eng st lat lon track speed seg]
  by (simp add: calculateDirectionLine_Map_Finite Let_def)

theorem segment_start_witness:
  "calculateDirectionLine sample_engine ready (Num (Finite 41)) (Num (Finite (- 8)))
     (Num (Finite 90)) (Num (Finite 120)) =
   Inr (Some ((Num (Finite 41), Num (Finite (- 8))),
              (Num (Finite endLat_A1), Num (Finite endLon_A1)))) \<and>
   fst ((Num (Finite 41), Num (Finite (- 8))), (Num (Finite endLat_A1), Num (Finite endLon_A1))) =
     (Num (Finite 41), Num (Finite (- 8))) \<and>
   (90 :: real) \<noteq> 0 \<and>
   map_sum id (map_option fst)
     (calculateDirectionLine_Map sample_engine (Num (Finite 41)) (Num (Finite (- 8)))
        (Num (Finite 90)) (Finite 0.001)) =
   Inr (Some (Num (Finite (direct_lat (41 * pi / 180) (90 * pi / 180) 0.00001 * 180 / pi)),
              Num (Finite (direct_lon (41 * pi / 180) (- 8 * pi / 180) (90 * pi / 180) 0.00001
                             * 180 / pi))))"
proof -
  have "calculateDirectionLine sample_engine ready (Num (Finite 41)) (Num (Finite (- 8)))
     (Num (Finite 90)) (Num (Finite 120)) =
   Inr (Some ((Num (Finite 41), Num (Finite (- 8))),
              (Num (Finite endLat_A1), Num (Finite endLon_A1))))"
    by (simp add: calculateDirectionLine_Finite leaflet_ready_samples endLat_A1_def endLon_A1_def)
  with segment_start [of sample_engine ready "Num (Finite 41)" "Num (Finite (- 8))"
      "Num (Finite 90)" "Num (Finite 120)"
      "((Num (Finite 41), Num (Finite (- 8))), (Num (Finite endLat_A1), Num (Finite endLon_A1)))"
      90 41 "- 8" "0.001"]
  show ?thesis by simp
qed

text \<open>
  Stated for every projection, C7 fails: for the position (41, -8) and track 90 the
  projection of \<^verbatim>\<open>Map.vue\<close> returns a segment, and its first point is not (41, -8).
\<close>

theorem segment_start_counterexample:
  "(case calculateDirectionLine_Map sample_engine (Num (Finite 41)) (Num (Finite (- 8)))
           (Num (Finite 90)) (Finite 0.001) of
      Inr (Some seg) \<Rightarrow> fst seg \<noteq> (Num (Finite 41), Num (Finite (- 8)))
    | _ \<Rightarrow> False)"
proof -
  have pi0: "0 < pi" by simp
  have pi3: "3 \<le> pi" by (rule pi_ge_three)
  let ?p = "41 * pi / 180"
  let ?l = "- 8 * pi / 180"
  let ?d = "1 / 100000 :: real"
  have "?l < direct_lon ?p ?l (pi / 2) ?d"
    using pi0 pi3 by (intro direct_lon_east) simp_all
  then have "?l * (180 / pi) < direct_lon ?p ?l (pi / 2) ?d * (180 / pi)"
    using pi0 by (intro mult_strict_right_mono) simp_all
  moreover have "?l * (180 / pi) = - 8"
    using pi0 by simp
  ultimately have "direct_lon ?p ?l (pi / 2) ?d * (180 / pi) \<noteq> - 8"
    by simp
  then show ?thesis
    by (simp add: calculateDirectionLine_Map_Finite Let_def)
qed

text \<open>
  C8. The validation is idempotent: validating its own output, wrapped again in the raw
  shape, returns that output. The output is a subsequence of the input, in the input's
  order, so it is never longer than the input. The filter returns a list exactly on the
  raw lists on none of whose entries its callback throws; it does so on every raw list
  whose entries are not \<^verbatim>\<open>null\<close> and have a latitude and a longitude that convert to
  numbers.
\<close>

theorem validMarkers_idempotent_subseq:
  "((\<exists>out. validMarkers eng (raw_snapshot raw) = Inr out) \<longleftrightarrow>
      (\<forall>m \<in> set raw. \<not> entry_throws eng m)) \<and>
   ((\<forall>m \<in> set raw. m \<noteq> Undefined \<and> m \<noteq> Null \<and>
       convertible eng (field m ''lat'') \<and> convertible eng (field m ''lon'')) \<longrightarrow>
      (\<exists>out. validMarkers eng (raw_snapshot raw) = Inr out)) \<and>
   (\<forall>out. validMarkers eng (raw_snapshot raw) = Inr out \<longrightarrow>
      validMarkers eng (raw_snapshot out) = Inr out \<and>
      subseq out raw \<and> length out \<le> length raw)"
proof (intro conjI impI allI)
  show iff: "(\<exists>out. validMarkers eng (raw_snapshot raw) = Inr out) \<longleftrightarrow>
      (\<forall>m \<in> set raw. \<not> entry_throws eng m)"
  proof
    assume "\<exists>out. validMarkers eng (raw_snapshot raw) = Inr out"
    then obtain out where "filter_markers eng raw = Inr out"
      by (auto simp: validMarkers_raw_snapshot)
    with filter_markers_throws [of raw eng]
    show "\<forall>m \<in> set raw. \<not> entry_throws eng m" by auto
  next
    assume "\<forall>m \<in> set raw. \<not> entry_throws eng m"
    from filter_markers_total [OF this]
    show "\<exists>out. validMarkers eng (raw_snapshot raw) = Inr out"
      by (simp add: validMarkers_raw_snapshot)
  qed
  assume "\<forall>m \<in> set raw. m \<noteq> Undefined \<and> m \<noteq> Null \<and>
       convertible eng (field m ''lat'') \<and> convertible eng (field m ''lon'')"
  then have "\<forall>m \<in> set raw. \<not> entry_throws eng m"
    by (auto simp: entry_throws_def)
  with iff show "\<exists>out. validMarkers eng (raw_snapshot raw) = Inr out" by blast
next
  fix out
  assume "validMarkers eng (raw_snapshot raw) = Inr out"
  then have f: "filter_markers eng raw = Inr out"
    by (simp add: validMarkers_raw_snapshot)
  from filter_markers_idem [OF f] show "validMarkers eng (raw_snapshot out) = Inr out"
    by (simp add: validMarkers_raw_snapshot)
  from filter_markers_subseq [OF f] show "subseq out raw" .
  then show "length out \<le> length raw" by (rule list_emb_length)
qed

theorem validMarkers_idempotent_subseq_witness:
  "entry_A1 \<noteq> Undefined \<and> entry_A1 \<noteq> Null \<and>
   convertible sample_engine (field entry_A1 ''lat'') \<and>
   convertible sample_engine (field entry_A1 ''lon'') \<and>
   entry_B2 \<noteq> Undefined \<and> entry_B2 \<noteq> Null \<and>
   convertible sample_engine (field entry_B2 ''lat'') \<and>
   convertible sample_engine (field entry_B2 ''lon'') \<and>
   validMarkers sample_engine (raw_snapshot [entry_A1, entry_B2]) = Inr [entry_A1] \<and>
   validMarkers sample_engine (raw_snapshot [entry_A1]) = Inr [entry_A1] \<and>
   subseq [entry_A1] [entry_A1, entry_B2] \<and>
   length [entry_A1] \<le> length [entry_A1, entry_B2]"
proof -
  have run: "validMarkers sample_engine (raw_snapshot [entry_A1, entry_B2]) = Inr [entry_A1]"
    by (simp add: validMarkers_raw_snapshot marker_valid_def isNaN_def entry_A1_def entry_B2_def)
  have e: "entry_A1 \<noteq> Undefined \<and> entry_A1 \<noteq> Null \<and>
      convertible sample_engine (field entry_A1 ''lat'') \<and>
      convertible sample_engine (field entry_A1 ''lon'') \<and>
      entry_B2 \<noteq> Undefined \<and> entry_B2 \<noteq> Null \<and>
      convertible sample_engine (field entry_B2 ''lat'') \<and>
      convertible sample_engine (field entry_B2 ''lon'')"
    by (simp add: entry_A1_def entry_B2_def field_def convertible_def)
  from run validMarkers_idempotent_subseq [of sample_engine "[entry_A1, entry_B2]"]
  have "validMarkers sample_engine (raw_snapshot [entry_A1]) = Inr [entry_A1] \<and>
      subseq [entry_A1] [entry_A1, entry_B2] \<and>
      length [entry_A1] \<le> length [entry_A1, entry_B2]"
    by blast
  with run e show ?thesis by blast
qed

text \<open>
  C9 (amended). The outcome of the projection depends on its arguments and on whether the
  map widget is ready, and on nothing else of the component state: two calls with the
  same arguments in states that agree on the widget have the same outcome, the same
  result or the same exception. No call while the widget is not ready returns a segment,
  and such a call returns \<^verbatim>\<open>null\<close> whenever track and speed are primitive values (missing,
  \<^verbatim>\<open>null\<close>, a boolean, a number or a string).
\<close>

theorem projection_reads_widget:
  "(leaflet_ready st = leaflet_ready st' \<longrightarrow>
      calculateDirectionLine eng st lat lon track speed =
      calculateDirectionLine eng st' lat lon track speed) \<and>
   (\<not> leaflet_ready st \<longrightarrow>
      (\<forall>seg. calculateDirectionLine eng st lat lon track speed \<noteq> Inr (Some seg))) \<and>
   (\<not> leaflet_ready st \<and> primitive track \<and> primitive speed \<longrightarrow>
      calculateDirectionLine eng st lat lon track speed = Inr None)"
proof (intro conjI impI)
  assume "leaflet_ready st = leaflet_ready st'"
  then show "calculateDirectionLine eng st lat lon track speed =
      calculateDirectionLine eng st' lat lon track speed"
    by (auto simp: calculateDirectionLine_def leaflet_ready_def Let_def
        split: option.splits sum.splits bool.splits)
next
  assume "\<not> leaflet_ready st"
  then show "\<forall>seg. calculateDirectionLine eng st lat lon track speed \<noteq> Inr (Some seg)"
    using calculateDirectionLine_Some_iff [of eng st lat lon track speed] by blast
next
  assume "\<not> leaflet_ready st \<and> primitive track \<and> primitive speed"
  then show "calculateDirectionLine eng st lat lon track speed = Inr None"
    using calculateDirectionLine_None_primitive [of track speed eng st lat lon] by blast
qed

theorem projection_reads_widget_witness:
  "leaflet_ready ready = leaflet_ready previous \<and>
   calculateDirectionLine sample_engine ready (Num (Finite 41)) (Num (Finite (- 8)))
     (Num (Finite 90)) (Num (Finite 120)) =
   calculateDirectionLine sample_engine previous (Num (Finite 41)) (Num (Finite (- 8)))
     (Num (Finite 90)) (Num (Finite 120)) \<and>
   \<not> leaflet_ready initial \<and>
   primitive (Num (Finite 90)) \<and> primitive (Num (Finite 120)) \<and>
   calculateDirectionLine sample_engine initial (Num (Finite 41)) (Num (Finite (- 8)))
     (Num (Finite 90)) (Num (Finite 120)) = Inr None"
proof -
  have pr: "primitive (Num (Finite 90))" "primitive (Num (Finite 120))"
    by (simp_all add: primitive_def)
  from pr leaflet_ready_samples
    projection_reads_widget [of ready previous sample_engine "Num (Finite 41)"
      "Num (Finite (- 8))" "Num (Finite 90)" "Num (Finite 120)"]
    projection_reads_widget [of initial initial sample_engine "Num (Finite 41)"
      "Num (Finite (- 8))" "Num (Finite 90)" "Num (Finite 120)"]
  show ?thesis by simp
qed

text \<open>
  Stated as independence of the widget, C9 fails: the same arguments give a segment with
  the widget ready and \<^verbatim>\<open>null\<close> in the initial state and while the map is not created
  yet.
\<close>

theorem projection_reads_widget_counterexample:
  "calculateDirectionLine sample_engine ready (Num (Finite 41)) (Num (Finite (- 8)))
     (Num (Finite 90)) (Num (Finite 120)) \<noteq>
   calculateDirectionLine sample_engine initial (Num (Finite 41)) (Num (Finite (- 8)))
     (Num (Finite 90)) (Num (Finite 120)) \<and>
   calculateDirectionLine sample_engine ready (Num (Finite 41)) (Num (Finite (- 8)))
     (Num (Finite 90)) (Num (Finite 120)) \<noteq>
   calculateDirectionLine sample_engine mounting (Num (Finite 41)) (Num (Finite (- 8)))
     (Num (Finite 90)) (Num (Finite 120))"
  by (simp add: calculateDirectionLine_Finite leaflet_ready_samples)

text \<open>
  C10. A raw entry whose latitude is exactly 0 or whose longitude is exactly 0 is dropped
  by the validation, whatever its other fields: it is in no list the validation returns,
  and in no markers list of any state either component reaches.
\<close>

theorem zero_coordinate_dropped:
  assumes "field m ''lat'' = Num (Finite 0) \<or> field m ''lon'' = Num (Finite 0)"
  shows "(validMarkers eng data = Inr vm \<longrightarrow> m \<notin> set vm) \<and>
         (reachable (getFlights eng) st \<longrightarrow> m \<notin> set (markers st)) \<and>
         (reachable (getFlights_Map eng) st \<longrightarrow> m \<notin> set (markers st))"
proof (intro conjI impI)
  assume "validMarkers eng data = Inr vm"
  then show "m \<notin> set vm"
    using validMarkers_member_valid [of eng data vm m] zero_not_valid [OF assms] by blast
next
  assume "reachable (getFlights eng) st"
  from reachable_markers_valid [OF this, of eng] getFlights_markers
  show "m \<notin> set (markers st)"
    using zero_not_valid [OF assms] by blast
next
  assume "reachable (getFlights_Map eng) st"
  from reachable_markers_valid [OF this, of eng] getFlights_Map_markers
  show "m \<notin> set (markers st)"
    using zero_not_valid [OF assms] by blast
qed

theorem zero_coordinate_dropped_witness:
  "field entry_equator ''lat'' = Num (Finite 0) \<and>
   validMarkers sample_engine (raw_snapshot [entry_equator, entry_A1]) = Inr [entry_A1] \<and>
   entry_equator \<notin> set [entry_A1] \<and>
   reachable (getFlights sample_engine)
     (fst (getFlights sample_engine (success [entry_equator, entry_A1]) ready)) \<and>
   entry_equator \<notin>
     set (markers (fst (getFlights sample_engine (success [entry_equator, entry_A1]) ready))) \<and>
   reachable (getFlights_Map sample_engine)
     (fst (getFlights_Map sample_engine (success [entry_equator, entry_A1]) ready)) \<and>
   entry_equator \<notin>
     set (markers (fst (getFlights_Map sample_engine (success [entry_equator, entry_A1]) ready)))"
proof -
  have zero: "field entry_equator ''lat'' = Num (Finite 0)"
    by (simp add: field_def entry_equator_def)
  have vm: "validMarkers sample_engine (raw_snapshot [entry_equator, entry_A1]) = Inr [entry_A1]"
    by (simp add: validMarkers_raw_snapshot marker_valid_def isNaN_def entry_equator_def entry_A1_def)
  have "reachable (getFlights sample_engine) ready"
    unfolding ready_def by (intro reachable.widget reachable.start)
  then have r1: "reachable (getFlights sample_engine)
      (fst (getFlights sample_engine (success [entry_equator, entry_A1]) ready))"
    by (rule reachable.refreshed)
  have "reachable (getFlights_Map sample_engine) ready"
    unfolding ready_def by (intro reachable.widget reachable.start)
  then have r2: "reachable (getFlights_Map sample_engine)
      (fst (getFlights_Map sample_engine (success [entry_equator, entry_A1]) ready))"
    by (rule reachable.refreshed)
  from zero have z: "field entry_equator ''lat'' = Num (Finite 0) \<or>
      field entry_equator ''lon'' = Num (Finite 0)" by simp
  from zero vm r1 r2
    zero_coordinate_dropped [OF z, of sample_engine "raw_snapshot [entry_equator, entry_A1]"
      "[entry_A1]" "fst (getFlights sample_engine (success [entry_equator, entry_A1]) ready)"]
    zero_coordinate_dropped [OF z, of sample_engine "raw_snapshot [entry_equator, entry_A1]"
      "[entry_A1]" "fst (getFlights_Map sample_engine (success [entry_equator, entry_A1]) ready)"]
  show ?thesis by blast
qed

end
